theory Spec2Isabelle
  imports Complex_Main "HOL-Library.Word" "HOL-Library.Sublist"
begin

section \<open>The live-session hook \<open>useGeminiLive\<close>\<close>

text \<open>
  The hook keeps React state (\<open>useState\<close>) and mutable cells (\<open>useRef\<close>); its
  callbacks run on one event loop. The embedding is explicit state passing: one record
  holds every state variable and every ref, each callback is a function from the state
  (and what the environment hands to the callback) to the calls it makes on browser and
  SDK objects, in order, and the new state. The values an \<open>await\<close> produces are
  arguments of the function. The inbound message handler suspends at
  \<open>await decodeAudioData\<close>: it is given both as its two halves, between which other
  callbacks can run, and as the composition of the two for a decode that settles before
  anything else runs. The other callbacks are taken to run to their end before the next
  one starts.
\<close>

subsection \<open>Strings\<close>

text \<open>
  A JavaScript string is a sequence of UTF-16 code units. \<open>js\<close> writes an ASCII
  literal of the source as such a sequence.
\<close>

type_synonym js_string = "16 word list"

definition js :: "string \<Rightarrow> js_string" where
  "js s = map (\<lambda>c. of_char c) s"

text \<open>Truthiness of a possibly absent string: \<open>undefined\<close> and \<open>""\<close> are falsy.\<close>

fun truthy :: "js_string option \<Rightarrow> bool" where
  "truthy None = False"
| "truthy (Some t) = (t \<noteq> [])"

text \<open>\<open>String.prototype.includes\<close>: the argument occurs as a contiguous run.\<close>

fun includes_str :: "js_string \<Rightarrow> js_string \<Rightarrow> bool" where
  "includes_str [] p = (p = [])"
| "includes_str (c # cs) p = (prefix p (c # cs) \<or> includes_str cs p)"

text \<open>
  \<open>String.prototype.trim\<close> removes the code units of ECMAScript's WhiteSpace and
  LineTerminator productions from both ends.
\<close>

definition is_white_space :: "16 word \<Rightarrow> bool" where
  "is_white_space u =
     (u = 0x0009 \<or> u = 0x000A \<or> u = 0x000B \<or> u = 0x000C \<or> u = 0x000D \<or> u = 0x0020
      \<or> u = 0x00A0 \<or> u = 0x1680 \<or> (0x2000 \<le> u \<and> u \<le> 0x200A) \<or> u = 0x2028
      \<or> u = 0x2029 \<or> u = 0x202F \<or> u = 0x205F \<or> u = 0x3000 \<or> u = 0xFEFF)"

definition trim :: "js_string \<Rightarrow> js_string" where
  "trim t = rev (dropWhile is_white_space (rev (dropWhile is_white_space t)))"

text \<open>\<open>Date.now() + '-u'\<close>: the decimal digits of a non-negative integer.\<close>

fun number_to_string :: "nat \<Rightarrow> js_string" where
  "number_to_string n =
     (if n < 10 then [of_nat (48 + n)]
      else number_to_string (n div 10) @ [of_nat (48 + n mod 10)])"

subsection \<open>Data\<close>

datatype ConnectionState = DISCONNECTED | CONNECTING | CONNECTED | ERROR

datatype Role = User | Model

record ChatMessage =
  msg_id :: js_string
  role :: Role
  text_of :: js_string

text \<open>A \<open>Blob\<close>: its bytes and its MIME type. \<open>new Blob(parts, {type})\<close> concatenates.\<close>

datatype Blob = Blob (blob_bytes: "8 word list") (blob_type: js_string)

definition new_Blob :: "Blob list \<Rightarrow> js_string \<Rightarrow> Blob" where
  "new_Blob parts ty = Blob (concat (map blob_bytes parts)) ty"

definition blob_size :: "Blob \<Rightarrow> nat" where
  "blob_size b = length (blob_bytes b)"

text \<open>
  Browser objects behind the refs. An audio context and a script processor are opaque
  handles; the processor's \<open>onaudioprocess\<close> closure holds the \<open>isMuted\<close> it was created
  with. A media stream is its tracks. A media recorder is its \<open>state\<close>; it is started
  without a timeslice, so it hands over what it recorded only in the \<open>dataavailable\<close>
  event that follows \<open>stop()\<close>. The session promise is what it settles to: a promise
  that is still pending is known by its later outcome, and a callback that awaits it
  goes on when it settles. A buffer source is known by the number it was created under
  (object identity in the \<open>Set\<close>).
\<close>

datatype AudioContext = AudioContext

record ScriptProcessorNode =
  closure_isMuted :: bool

type_synonym MediaStream = "nat list"

datatype RecordingState = Inactive | Recording | Paused

datatype SessionPromise = Fulfilled | Rejected

record AudioBuffer =
  duration :: real

record hook_state =
  connectionState :: ConnectionState
  volume :: real
  isModelSpeaking :: bool
  error :: "js_string option"
  messages :: "ChatMessage list"
  isMuted :: bool
  fluencyFeedback :: js_string
  userTranscript :: js_string
  inputAudioContextRef :: "AudioContext option"
  outputAudioContextRef :: "AudioContext option"
  mediaStreamRef :: "MediaStream option"
  scriptProcessorRef :: "ScriptProcessorNode option"
  mediaRecorderRef :: "RecordingState option"
  audioChunksRef :: "Blob list"
  activeSourcesRef :: "nat list"
  nextStartTimeRef :: real
  sessionPromiseRef :: "SessionPromise option"
  currentInputRef :: js_string
  currentOutputRef :: js_string
  sourcesCreated :: nat

text \<open>
  \<open>activeSourcesRef\<close> is a JavaScript \<open>Set\<close>: insertion ordered, no duplicates.
  \<open>sourcesCreated\<close> is not a variable of the source: it numbers the buffer sources
  created so far, so that each \<open>createBufferSource()\<close> yields a new object.
\<close>

definition set_add :: "nat \<Rightarrow> nat list \<Rightarrow> nat list" where
  "set_add x xs = (if x \<in> set xs then xs else xs @ [x])"

definition set_delete :: "nat \<Rightarrow> nat list \<Rightarrow> nat list" where
  "set_delete x xs = removeAll x xs"

text \<open>The calls a callback makes on objects outside the hook, in the order made.\<close>

datatype effect =
    RecorderStop
  | TrackStop nat
  | ProcessorDisconnect
  | InputContextClose
  | OutputContextClose
  | SourceStop nat
  | SourceStart nat real
  | SessionClose
  | SessionSend js_string bool
  | SessionSendRealtimeInput "real list"
  | ConsoleError

text \<open>The state of a freshly mounted hook (the \<open>useState\<close> and \<open>useRef\<close> initial values).\<close>

definition initial_state :: hook_state where
  "initial_state =
     \<lparr> connectionState = DISCONNECTED, volume = 0, isModelSpeaking = False, error = None,
       messages = [], isMuted = False, fluencyFeedback = js ''neutral'', userTranscript = [],
       inputAudioContextRef = None, outputAudioContextRef = None, mediaStreamRef = None,
       scriptProcessorRef = None, mediaRecorderRef = None, audioChunksRef = [],
       activeSourcesRef = [], nextStartTimeRef = 0, sessionPromiseRef = None,
       currentInputRef = [], currentOutputRef = [], sourcesCreated = 0 \<rparr>"

subsection \<open>\<open>stopAudioProcessing\<close>: releasing the resources\<close>

text \<open>
  Each release is guarded as in the source: the recorder is stopped unless its state is
  \<open>inactive\<close> (\<open>stop()\<close> leaves it \<open>inactive\<close>; the ref itself is never cleared), the
  stream, the processor and the two contexts are released and their refs set to
  \<open>null\<close>, every source of the active set is stopped (an exception of \<open>stop()\<close> is
  swallowed), the set is cleared and the four state variables are reset.
\<close>

definition stop_recorder :: "hook_state \<Rightarrow> effect list \<times> hook_state" where
  "stop_recorder s =
     (case mediaRecorderRef s of
        None \<Rightarrow> ([], s)
      | Some st \<Rightarrow>
          if st \<noteq> Inactive then ([RecorderStop], s\<lparr>mediaRecorderRef := Some Inactive\<rparr>)
          else ([], s))"

definition stop_stream :: "hook_state \<Rightarrow> effect list \<times> hook_state" where
  "stop_stream s =
     (case mediaStreamRef s of
        None \<Rightarrow> ([], s)
      | Some tracks \<Rightarrow> (map TrackStop tracks, s\<lparr>mediaStreamRef := None\<rparr>))"

definition stop_processor :: "hook_state \<Rightarrow> effect list \<times> hook_state" where
  "stop_processor s =
     (case scriptProcessorRef s of
        None \<Rightarrow> ([], s)
      | Some p \<Rightarrow> ([ProcessorDisconnect], s\<lparr>scriptProcessorRef := None\<rparr>))"

definition close_input :: "hook_state \<Rightarrow> effect list \<times> hook_state" where
  "close_input s =
     (case inputAudioContextRef s of
        None \<Rightarrow> ([], s)
      | Some c \<Rightarrow> ([InputContextClose], s\<lparr>inputAudioContextRef := None\<rparr>))"

definition close_output :: "hook_state \<Rightarrow> effect list \<times> hook_state" where
  "close_output s =
     (case outputAudioContextRef s of
        None \<Rightarrow> ([], s)
      | Some c \<Rightarrow> ([OutputContextClose], s\<lparr>outputAudioContextRef := None\<rparr>))"

definition stop_sources :: "hook_state \<Rightarrow> effect list \<times> hook_state" where
  "stop_sources s =
     (map SourceStop (activeSourcesRef s),
      s\<lparr>activeSourcesRef := [], nextStartTimeRef := 0, isModelSpeaking := False,
        volume := 0, fluencyFeedback := js ''neutral'', userTranscript := []\<rparr>)"

text \<open>Running one part after another: the calls are appended, the state is threaded.\<close>

definition and_then ::
  "(hook_state \<Rightarrow> effect list \<times> hook_state) \<Rightarrow> (hook_state \<Rightarrow> effect list \<times> hook_state)
   \<Rightarrow> hook_state \<Rightarrow> effect list \<times> hook_state" where
  "and_then f g s = (let (e1, s1) = f s; (e2, s2) = g s1 in (e1 @ e2, s2))"

definition stopAudioProcessing :: "hook_state \<Rightarrow> effect list \<times> hook_state" where
  "stopAudioProcessing =
     and_then stop_recorder (and_then stop_stream (and_then stop_processor
       (and_then close_input (and_then close_output stop_sources))))"

subsection \<open>The inbound message handler \<open>onmessage\<close>\<close>

text \<open>
  A server message, reduced to the four fields the handler reads through optional
  chaining: the audio payload of the first part of the model turn, the text of the input
  and of the output transcription, and the turn-complete flag. An absent field is
  \<open>None\<close> (\<open>False\<close> for the flag).
\<close>

record LiveServerMessage =
  audioData :: "js_string option"
  inputTranscription :: "js_string option"
  outputTranscription :: "js_string option"
  turnComplete :: bool

text \<open>
  What the handler reads from its surroundings: the output context's \<open>currentTime\<close>
  and the two readings of \<open>Date.now()\<close>.
\<close>

record message_env =
  currentTime :: real
  dateNowUser :: nat
  dateNowModel :: nat

text \<open>
  \<open>decodeAudioData\<close> lives in \<open>utils/audioUtils\<close>, outside the hook: it is an argument
  \<open>dec\<close> of the handler, \<open>None\<close> where it throws. The handler is an \<open>async\<close>
  function. With an audio payload and an output context, it sets the flag, reads the
  context's clock and raises the cursor to it, and then suspends at
  \<open>await decodeAudioData\<close> (\<open>audio_begin\<close>). When the decode has settled it goes on
  with the refs as they are then (\<open>audio_resume\<close>): the source is started at the cursor
  as it stands, added to the set, and the cursor advances by the buffer's duration; a
  throw is swallowed by the empty \<open>catch\<close>. The context was read into a local before the
  \<open>await\<close>, so the second half does not look at the ref again.
\<close>

definition audio_begin :: "real \<Rightarrow> hook_state \<Rightarrow> hook_state" where
  "audio_begin now s =
     s\<lparr>isModelSpeaking := True, nextStartTimeRef := max (nextStartTimeRef s) now\<rparr>"

definition audio_resume :: "AudioBuffer option \<Rightarrow> hook_state \<Rightarrow> effect list \<times> hook_state" where
  "audio_resume decoded s =
     (case decoded of
        None \<Rightarrow> ([], s)
      | Some buffer \<Rightarrow>
          let src = sourcesCreated s in
          ([SourceStart src (nextStartTimeRef s)],
           s\<lparr>sourcesCreated := Suc src,
             activeSourcesRef := set_add src (activeSourcesRef s),
             nextStartTimeRef := nextStartTimeRef s + duration buffer\<rparr>))"

text \<open>The audio part of the handler when the decode settles before anything else runs.\<close>

definition play_audio ::
  "(js_string \<Rightarrow> AudioBuffer option) \<Rightarrow> LiveServerMessage \<Rightarrow> real \<Rightarrow> hook_state
   \<Rightarrow> effect list \<times> hook_state" where
  "play_audio dec m now s =
     (if truthy (audioData m) \<and> outputAudioContextRef s \<noteq> None then
        audio_resume (dec (case audioData m of Some d \<Rightarrow> d | None \<Rightarrow> [])) (audio_begin now s)
      else ([], s))"

definition input_fragment :: "LiveServerMessage \<Rightarrow> hook_state \<Rightarrow> hook_state" where
  "input_fragment m s =
     (case inputTranscription m of
        None \<Rightarrow> s
      | Some t \<Rightarrow>
          if t \<noteq> [] then s\<lparr>currentInputRef := currentInputRef s @ t,
                             userTranscript := currentInputRef s @ t\<rparr>
          else s)"

definition output_fragment :: "LiveServerMessage \<Rightarrow> hook_state \<Rightarrow> hook_state" where
  "output_fragment m s =
     (case outputTranscription m of
        None \<Rightarrow> s
      | Some t \<Rightarrow> if t \<noteq> [] then s\<lparr>currentOutputRef := currentOutputRef s @ t\<rparr> else s)"

text \<open>\<open>setMessages(prev => [...prev, m])\<close> and \<open>setMessages([])\<close>.\<close>

definition setMessages_append :: "ChatMessage \<Rightarrow> hook_state \<Rightarrow> hook_state" where
  "setMessages_append m s = s\<lparr>messages := messages s @ [m]\<rparr>"

definition setMessages_reset :: "hook_state \<Rightarrow> hook_state" where
  "setMessages_reset s = s\<lparr>messages := []\<rparr>"

text \<open>
  The turn-complete branch. The message object is built inside the updater function
  handed to \<open>setMessages\<close>, which reads \<open>Date.now()\<close> and the accumulator when React
  applies it. The updater is taken to be applied where \<open>setMessages\<close> is called, so the
  text is the accumulator's content before it is cleared. Which messages are appended,
  with which role and in which order does not depend on when the updater is applied;
  the properties of the chat history below speak of these only, not of a message's text
  or identifier.
\<close>

definition finalize_user :: "nat \<Rightarrow> hook_state \<Rightarrow> hook_state" where
  "finalize_user now s =
     (if trim (currentInputRef s) \<noteq> [] then
        (setMessages_append
           \<lparr>msg_id = number_to_string now @ js ''-u'', role = User,
             text_of = currentInputRef s\<rparr> s)
        \<lparr>currentInputRef := []\<rparr>
      else s)"

definition finalize_model :: "nat \<Rightarrow> hook_state \<Rightarrow> hook_state" where
  "finalize_model now s =
     (if trim (currentOutputRef s) \<noteq> [] then
        (setMessages_append
           \<lparr>msg_id = number_to_string now @ js ''-m'', role = Model,
             text_of = currentOutputRef s\<rparr> s)
        \<lparr>currentOutputRef := []\<rparr>
      else s)"

definition turn_complete :: "LiveServerMessage \<Rightarrow> message_env \<Rightarrow> hook_state \<Rightarrow> hook_state" where
  "turn_complete m env s =
     (if turnComplete m then finalize_model (dateNowModel env) (finalize_user (dateNowUser env) s)
      else s)"

definition onmessage ::
  "(js_string \<Rightarrow> AudioBuffer option) \<Rightarrow> LiveServerMessage \<Rightarrow> message_env \<Rightarrow> hook_state
   \<Rightarrow> effect list \<times> hook_state" where
  "onmessage dec m env s =
     (let (es, s1) = play_audio dec m (currentTime env) s
      in (es, turn_complete m env (output_fragment m (input_fragment m s1))))"

text \<open>
  The two halves of the handler. \<open>onmessage_arrive\<close> is the handler up to the
  \<open>await\<close>; a message that is not played has no \<open>await\<close> and is handled to the end.
  \<open>onmessage_settle\<close> is the rest of a suspended handler, run when its decode has
  settled: the second half of the audio part, then the transcription fragments and the
  turn-complete branch. In the environment of \<open>onmessage_settle\<close>, \<open>currentTime\<close> is the
  output clock at that moment; the code does not read it again.
\<close>

definition onmessage_arrive :: "LiveServerMessage \<Rightarrow> message_env \<Rightarrow> hook_state \<Rightarrow> hook_state" where
  "onmessage_arrive m env s =
     (if truthy (audioData m) \<and> outputAudioContextRef s \<noteq> None then
        audio_begin (currentTime env) s
      else turn_complete m env (output_fragment m (input_fragment m s)))"

definition onmessage_settle ::
  "(js_string \<Rightarrow> AudioBuffer option) \<Rightarrow> LiveServerMessage \<Rightarrow> message_env \<Rightarrow> hook_state
   \<Rightarrow> effect list \<times> hook_state" where
  "onmessage_settle dec m env s =
     (let (es, s1) = audio_resume (dec (case audioData m of Some d \<Rightarrow> d | None \<Rightarrow> [])) s
      in (es, turn_complete m env (output_fragment m (input_fragment m s1))))"

text \<open>The \<open>ended\<close> listener of a buffer source.\<close>

definition source_ended :: "nat \<Rightarrow> hook_state \<Rightarrow> hook_state" where
  "source_ended src s =
     (let s1 = s\<lparr>activeSourcesRef := set_delete src (activeSourcesRef s)\<rparr>
      in if length (activeSourcesRef s1) = 0 then s1\<lparr>isModelSpeaking := False\<rparr> else s1)"

subsection \<open>\<open>onopen\<close>, \<open>onclose\<close>, \<open>onerror\<close>\<close>

definition onopen :: "hook_state \<Rightarrow> effect list \<times> hook_state" where
  "onopen s =
     ((if sessionPromiseRef s = Some Fulfilled
       then [SessionSend (js ''Hello Koli! Start the IELTS session.'') True] else []),
      s\<lparr>connectionState := CONNECTED\<rparr>)"

definition onclose :: "hook_state \<Rightarrow> effect list \<times> hook_state" where
  "onclose s = stopAudioProcessing (s\<lparr>connectionState := DISCONNECTED\<rparr>)"

text \<open>
  An error value: the handlers read only its \<open>message\<close>. \<open>onerror\<close> reads it as
  \<open>err?.message || ""\<close>, so the error itself may be absent.
\<close>

record js_error =
  message :: "js_string option"

definition message_or_empty :: "js_error option \<Rightarrow> js_string" where
  "message_or_empty err =
     (case err of
        None \<Rightarrow> []
      | Some e \<Rightarrow> (case message e of None \<Rightarrow> [] | Some t \<Rightarrow> t))"

definition billing_signature :: "js_string \<Rightarrow> bool" where
  "billing_signature msg =
     (includes_str msg (js ''Requested entity was not found'') \<or> includes_str msg (js ''404''))"

definition onerror :: "js_error option \<Rightarrow> hook_state \<Rightarrow> effect list \<times> hook_state" where
  "onerror err s =
     (let msg = message_or_empty err;
          s1 = s\<lparr>connectionState := ERROR\<rparr>;
          s2 = (if billing_signature msg then s1\<lparr>error := Some (js ''BILLING_REQUIRED'')\<rparr>
                else s1\<lparr>error := Some (if msg \<noteq> [] then msg
                                         else js ''Network connection failed.'')\<rparr>);
          (es, s3) = stopAudioProcessing s2
      in (ConsoleError # es, s3))"

subsection \<open>\<open>connect\<close>\<close>

text \<open>
  The statements of the \<open>try\<close> block that can throw, in source order. What the
  environment decides is an argument: where (if anywhere) a statement throws and with
  which error, the stream \<open>getUserMedia\<close> resolves to, and what the promise returned by
  \<open>ai.live.connect\<close> settles to. That promise is stored, not awaited: its rejection is
  not an exception of \<open>connect\<close>.
\<close>

datatype connect_step =
    NewInputContext | NewOutputContext | ResumeInput | ResumeOutput | GetUserMedia
  | NewMediaRecorder | RecorderStart | CreateMediaStreamSource | CreateScriptProcessor
  | ConnectNodes | NewGoogleGenAI | LiveConnect

record connect_env =
  failure :: "(connect_step \<times> js_error) option"
  stream :: MediaStream
  session :: SessionPromise

definition connect_steps :: "connect_step list" where
  "connect_steps =
     [NewInputContext, NewOutputContext, ResumeInput, ResumeOutput, GetUserMedia,
      NewMediaRecorder, RecorderStart, CreateMediaStreamSource, CreateScriptProcessor,
      ConnectNodes, NewGoogleGenAI, LiveConnect]"

fun setup_step :: "connect_env \<Rightarrow> connect_step \<Rightarrow> hook_state \<Rightarrow> hook_state" where
  "setup_step env NewInputContext s = s\<lparr>inputAudioContextRef := Some AudioContext\<rparr>"
| "setup_step env NewOutputContext s = s\<lparr>outputAudioContextRef := Some AudioContext\<rparr>"
| "setup_step env ResumeInput s = s"
| "setup_step env ResumeOutput s = s"
| "setup_step env GetUserMedia s = s\<lparr>mediaStreamRef := Some (stream env)\<rparr>"
| "setup_step env NewMediaRecorder s = s\<lparr>mediaRecorderRef := Some Inactive\<rparr>"
| "setup_step env RecorderStart s = s\<lparr>mediaRecorderRef := Some Recording\<rparr>"
| "setup_step env CreateMediaStreamSource s = s"
| "setup_step env CreateScriptProcessor s =
     s\<lparr>scriptProcessorRef := Some \<lparr>closure_isMuted = isMuted s\<rparr>\<rparr>"
| "setup_step env ConnectNodes s = s"
| "setup_step env NewGoogleGenAI s = s"
| "setup_step env LiveConnect s = s\<lparr>sessionPromiseRef := Some (session env)\<rparr>"

text \<open>The \<open>try\<close> block: the steps run in order up to the one that throws.\<close>

fun try_block :: "connect_env \<Rightarrow> connect_step list \<Rightarrow> hook_state \<Rightarrow> js_error option \<times> hook_state" where
  "try_block env [] s = (None, s)"
| "try_block env (st # sts) s =
     (case failure env of
        None \<Rightarrow> try_block env sts (setup_step env st s)
      | Some (failing, err) \<Rightarrow>
          if failing = st then (Some err, s) else try_block env sts (setup_step env st s))"

definition connect_begin :: "hook_state \<Rightarrow> hook_state" where
  "connect_begin s =
     (setMessages_reset (s\<lparr>connectionState := CONNECTING, error := None\<rparr>))
     \<lparr>currentInputRef := [], currentOutputRef := [], userTranscript := [],
      audioChunksRef := []\<rparr>"

text \<open>\<open>err.message || "Failed to initialize audio stream."\<close>\<close>

definition catch_message :: "js_error \<Rightarrow> js_string" where
  "catch_message err =
     (case message err of
        None \<Rightarrow> js ''Failed to initialize audio stream.''
      | Some t \<Rightarrow> if t \<noteq> [] then t else js ''Failed to initialize audio stream.'')"

definition connect_catch :: "js_error \<Rightarrow> hook_state \<Rightarrow> effect list \<times> hook_state" where
  "connect_catch err s =
     stopAudioProcessing (s\<lparr>error := Some (catch_message err), connectionState := ERROR\<rparr>)"

definition connect :: "connect_env \<Rightarrow> hook_state \<Rightarrow> effect list \<times> hook_state" where
  "connect env s =
     (case try_block env connect_steps (connect_begin s) of
        (None, s1) \<Rightarrow> ([], s1)
      | (Some err, s1) \<Rightarrow> connect_catch err s1)"

subsection \<open>\<open>disconnect\<close>\<close>

text \<open>
  \<open>(await sessionPromiseRef.current).close()\<close> inside \<open>try\<close>: the \<open>await\<close> throws when
  the promise is rejected (then nothing is closed), \<open>close()\<close> may throw itself. The
  second component says whether the \<open>try\<close> body threw; \<open>disconnect\<close> drops it, as the
  empty \<open>catch\<close> does.
\<close>

definition await_close :: "SessionPromise \<Rightarrow> bool \<Rightarrow> effect list \<times> bool" where
  "await_close p close_throws =
     (case p of Rejected \<Rightarrow> ([], True) | Fulfilled \<Rightarrow> ([SessionClose], close_throws))"

definition close_session :: "bool \<Rightarrow> hook_state \<Rightarrow> effect list \<times> hook_state" where
  "close_session close_throws s =
     (case sessionPromiseRef s of
        None \<Rightarrow> ([], s)
      | Some p \<Rightarrow> (fst (await_close p close_throws), s\<lparr>sessionPromiseRef := None\<rparr>))"

definition disconnect :: "bool \<Rightarrow> hook_state \<Rightarrow> effect list \<times> Blob option \<times> hook_state" where
  "disconnect close_throws s =
     (let (es, s1) = and_then (close_session close_throws) stopAudioProcessing s;
          s2 = s1\<lparr>connectionState := DISCONNECTED\<rparr>
      in (es,
          (if length (audioChunksRef s2) > 0
           then Some (new_Blob (audioChunksRef s2) (js ''audio/webm'')) else None),
          s2))"

subsection \<open>The recorder and the capture callback\<close>

definition ondataavailable :: "Blob \<Rightarrow> hook_state \<Rightarrow> hook_state" where
  "ondataavailable data s =
     (if blob_size data > 0 then s\<lparr>audioChunksRef := audioChunksRef s @ [data]\<rparr> else s)"

text \<open>
  \<open>onaudioprocess\<close> of the processor held in \<open>scriptProcessorRef\<close>, on one frame of
  samples (frames have 4096 samples). The media chunk sent is
  \<open>createPcmBlob(downsampleTo16000(frame))\<close>, both of \<open>utils/audioUtils\<close>; the call is
  recorded with the frame it is computed from. It is made only once the promise is
  fulfilled; a rejection is swallowed by \<open>.catch(() => {})\<close>.
\<close>

definition rms :: "real list \<Rightarrow> real" where
  "rms frame = sqrt (sum_list (map (\<lambda>x. x * x) frame) / real (length frame))"

definition onaudioprocess :: "real list \<Rightarrow> hook_state \<Rightarrow> effect list \<times> hook_state" where
  "onaudioprocess frame s =
     (case scriptProcessorRef s of
        None \<Rightarrow> ([], s)
      | Some p \<Rightarrow>
          ((if \<not> closure_isMuted p \<and> sessionPromiseRef s = Some Fulfilled
            then [SessionSendRealtimeInput frame] else []),
           s\<lparr>volume := min (rms frame * 5) 1\<rparr>))"

subsection \<open>The hook as an event system\<close>

datatype event =
    Connect connect_env
  | OnOpen
  | OnMessage LiveServerMessage message_env
  | OnClose
  | OnError "js_error option"
  | Disconnect bool
  | SourceEnded nat
  | DataAvailable Blob
  | AudioProcess "real list"
  | SetIsMuted bool

fun step :: "(js_string \<Rightarrow> AudioBuffer option) \<Rightarrow> event \<Rightarrow> hook_state \<Rightarrow> effect list \<times> hook_state" where
  "step dec (Connect env) s = connect env s"
| "step dec OnOpen s = onopen s"
| "step dec (OnMessage m env) s = onmessage dec m env s"
| "step dec OnClose s = onclose s"
| "step dec (OnError err) s = onerror err s"
| "step dec (Disconnect close_throws) s =
     (let (es, blob, s1) = disconnect close_throws s in (es, s1))"
| "step dec (SourceEnded src) s = ([], source_ended src s)"
| "step dec (DataAvailable data) s = ([], ondataavailable data s)"
| "step dec (AudioProcess frame) s = onaudioprocess frame s"
| "step dec (SetIsMuted b) s = ([], s\<lparr>isMuted := b\<rparr>)"

fun run :: "(js_string \<Rightarrow> AudioBuffer option) \<Rightarrow> event list \<Rightarrow> hook_state \<Rightarrow> effect list \<times> hook_state" where
  "run dec [] s = ([], s)"
| "run dec (e # es) s =
     (let (out1, s1) = step dec e s; (out2, s2) = run dec es s1 in (out1 @ out2, s2))"




text \<open>
  The callbacks that can run while a session is live and that neither stop the recorder
  nor are its \<open>dataavailable\<close> event.
\<close>

fun keeps_recording :: "event \<Rightarrow> bool" where
  "keeps_recording OnOpen = True"
| "keeps_recording (OnMessage m env) = True"
| "keeps_recording (SourceEnded src) = True"
| "keeps_recording (AudioProcess frame) = True"
| "keeps_recording (SetIsMuted b) = True"
| "keeps_recording e = False"

subsection \<open>What a turn-complete signal is expected to append\<close>

text \<open>
  The text a message carries for one side (nothing when the field is absent), whether an
  utterance has a code unit that is not white space, the two kinds of chat message, and
  the messages a turn-complete signal finalizes: the user's utterance, then the model's,
  each only when it has text. These state the property; the handler above does not use
  them.
\<close>

definition fragment :: "js_string option \<Rightarrow> js_string" where
  "fragment x = (case x of None \<Rightarrow> [] | Some t \<Rightarrow> t)"

definition has_text :: "js_string \<Rightarrow> bool" where
  "has_text t = list_ex (\<lambda>u. \<not> is_white_space u) t"

definition user_message :: "nat \<Rightarrow> js_string \<Rightarrow> ChatMessage" where
  "user_message now t = \<lparr>msg_id = number_to_string now @ js ''-u'', role = User, text_of = t\<rparr>"

definition model_message :: "nat \<Rightarrow> js_string \<Rightarrow> ChatMessage" where
  "model_message now t = \<lparr>msg_id = number_to_string now @ js ''-m'', role = Model, text_of = t\<rparr>"

definition finalized :: "LiveServerMessage \<Rightarrow> message_env \<Rightarrow> hook_state \<Rightarrow> ChatMessage list" where
  "finalized m env s =
     (if has_text (currentInputRef s @ fragment (inputTranscription m))
      then [user_message (dateNowUser env) (currentInputRef s @ fragment (inputTranscription m))]
      else [])
     @ (if has_text (currentOutputRef s @ fragment (outputTranscription m))
        then [model_message (dateNowModel env) (currentOutputRef s @ fragment (outputTranscription m))]
        else [])"

text \<open>The roles of the messages a turn-complete signal finalizes, in order.\<close>

definition finalized_roles :: "LiveServerMessage \<Rightarrow> hook_state \<Rightarrow> Role list" where
  "finalized_roles m s =
     (if has_text (currentInputRef s @ fragment (inputTranscription m)) then [User] else [])
     @ (if has_text (currentOutputRef s @ fragment (outputTranscription m)) then [Model] else [])"

subsection \<open>Playback: what is observed\<close>


definition payload :: "LiveServerMessage \<Rightarrow> js_string" where
  "payload m = (case audioData m of Some d \<Rightarrow> d | None \<Rightarrow> [])"

definition plays :: "LiveServerMessage \<Rightarrow> hook_state \<Rightarrow> bool" where
  "plays m s = (truthy (audioData m) \<and> outputAudioContextRef s \<noteq> None)"

text \<open>
  A decoder for the examples: base64 text of 16-bit mono PCM at 24 kHz has 64000
  characters per second of audio; a payload that is not a whole number of base64 groups
  makes the decoder throw.
\<close>

definition decoder_by_length :: "js_string \<Rightarrow> AudioBuffer option" where
  "decoder_by_length d =
     (if d \<noteq> [] \<and> length d mod 4 = 0 then Some \<lparr>duration = real (length d) / 64000\<rparr>
      else None)"

text \<open>The flag agrees with the active set.\<close>

definition speaking_matches :: "hook_state \<Rightarrow> bool" where
  "speaking_matches s = (isModelSpeaking s = (activeSourcesRef s \<noteq> []))"

subsection \<open>The audio codec\<close>

text \<open>
  \<open>createPcmBlob\<close> and \<open>decodeAudioData\<close> belong to \<open>utils/audioUtils\<close>, which is not
  among the source files; the hook only calls them. The definitions of this subsection
  follow the specification's description of the codec. Samples are reals. The base64
  text is produced and read back by the platform (\<open>btoa\<close>, \<open>atob\<close>) and carries the
  bytes unchanged, so the encoder's result is taken to be the bytes.
\<close>

text \<open>
  Modelled from the spec: the encoder of \<open>utils/audioUtils\<close> (absent) takes samples
  \<open>in range [-1, 1] ... with saturation at the range boundaries\<close>: a sample outside the
  range is replaced by the boundary it exceeds.
\<close>

definition clamp_sample :: "real \<Rightarrow> real" where
  "clamp_sample x = max (- 1) (min 1 x)"

text \<open>
  Modelled from the spec: the encoder of \<open>utils/audioUtils\<close> (absent) produces \<open>signed
  16-bit\<close> integers \<open>with saturation\<close>: an integer outside the 16-bit range is replaced by
  the nearest one inside.
\<close>

definition saturate16 :: "int \<Rightarrow> int" where
  "saturate16 n = max (- 32768) (min 32767 n)"

text \<open>
  Modelled from the spec: one sample through the encoder of \<open>utils/audioUtils\<close>
  (absent). The quantization step is \<open>1/32768\<close>, so the sample is scaled by \<open>32768\<close>;
  the specification does not say how the scaled value is made an integer, so the
  rounding \<open>rnd\<close> is an argument.
\<close>

definition pcm_encode_sample :: "(real \<Rightarrow> int) \<Rightarrow> real \<Rightarrow> 16 word" where
  "pcm_encode_sample rnd x = word_of_int (saturate16 (rnd (clamp_sample x * 32768)))"

text \<open>
  Modelled from the spec: the \<open>little-endian\<close> layout of the encoder of
  \<open>utils/audioUtils\<close> (absent): the low byte first.
\<close>

definition le_bytes :: "16 word \<Rightarrow> 8 word list" where
  "le_bytes w = [ucast w, ucast (drop_bit 8 w)]"

text \<open>
  Modelled from the spec: the decoder of \<open>utils/audioUtils\<close> (absent) reads the bytes
  back as little-endian 16-bit integers; an odd byte at the end is dropped.
\<close>

fun of_le_bytes :: "8 word list \<Rightarrow> 16 word list" where
  "of_le_bytes (lo # hi # bs) = or (ucast lo) (push_bit 8 (ucast hi)) # of_le_bytes bs"
| "of_le_bytes bs = []"

text \<open>
  Modelled from the spec: \<open>PCM encode\<close> of \<open>utils/audioUtils\<close> (absent), up to the
  base64 text: every sample encoded and laid out in order.
\<close>

definition pcm_encode :: "(real \<Rightarrow> int) \<Rightarrow> real list \<Rightarrow> 8 word list" where
  "pcm_encode rnd xs = concat (map (\<lambda>x. le_bytes (pcm_encode_sample rnd x)) xs)"

text \<open>
  Modelled from the spec: one sample through the decoder of \<open>utils/audioUtils\<close>
  (absent), the \<open>inverse operation\<close>: the signed integer divided by \<open>32768\<close>.
\<close>

definition pcm_decode_sample :: "16 word \<Rightarrow> real" where
  "pcm_decode_sample w = real_of_int (sint w) / 32768"

text \<open>
  Modelled from the spec: \<open>PCM decode\<close> of \<open>utils/audioUtils\<close> (absent), from the
  bytes the base64 payload carries.
\<close>

definition pcm_decode :: "8 word list \<Rightarrow> real list" where
  "pcm_decode bs = map pcm_decode_sample (of_le_bytes bs)"

text \<open>
  One rounding, for the examples: the fraction is dropped, as a store into an
  \<open>Int16Array\<close> does with a value in range.
\<close>

definition to_int_truncating :: "real \<Rightarrow> int" where
  "to_int_truncating y = (if 0 \<le> y then \<lfloor>y\<rfloor> else \<lceil>y\<rceil>)"

section \<open>Properties\<close>

subsection \<open>Releasing the resources\<close>

lemmas teardown_defs = stopAudioProcessing_def and_then_def stop_recorder_def stop_stream_def
  stop_processor_def close_input_def close_output_def stop_sources_def

lemma stopAudioProcessing_state:
  "snd (stopAudioProcessing s) =
     s\<lparr>mediaRecorderRef := map_option (\<lambda>st. Inactive) (mediaRecorderRef s),
       mediaStreamRef := None, scriptProcessorRef := None, inputAudioContextRef := None,
       outputAudioContextRef := None, activeSourcesRef := [], nextStartTimeRef := 0,
       isModelSpeaking := False, volume := 0, fluencyFeedback := js ''neutral'',
       userTranscript := []\<rparr>"
  by (simp add: teardown_defs split: option.splits)

lemma stopAudioProcessing_effects:
  "fst (stopAudioProcessing s) =
     (case mediaRecorderRef s of
        None \<Rightarrow> [] | Some st \<Rightarrow> if st \<noteq> Inactive then [RecorderStop] else [])
     @ (case mediaStreamRef s of None \<Rightarrow> [] | Some tracks \<Rightarrow> map TrackStop tracks)
     @ (case scriptProcessorRef s of None \<Rightarrow> [] | Some p \<Rightarrow> [ProcessorDisconnect])
     @ (case inputAudioContextRef s of None \<Rightarrow> [] | Some c \<Rightarrow> [InputContextClose])
     @ (case outputAudioContextRef s of None \<Rightarrow> [] | Some c \<Rightarrow> [OutputContextClose])
     @ map SourceStop (activeSourcesRef s)"
  by (simp add: teardown_defs split: option.splits)

lemma second_teardown_silent:
  "fst (stopAudioProcessing (snd (stopAudioProcessing s))) = []"
  by (simp add: stopAudioProcessing_effects stopAudioProcessing_state split: option.splits)

lemma second_teardown_state:
  "snd (stopAudioProcessing (snd (stopAudioProcessing s))) = snd (stopAudioProcessing s)"
  by (simp add: stopAudioProcessing_state option.map_comp comp_def)

lemma onerror_snd:
  "snd (onerror err s) =
     snd (stopAudioProcessing
       (s\<lparr>connectionState := ERROR,
          error := Some (if billing_signature (message_or_empty err) then js ''BILLING_REQUIRED''
                         else if message_or_empty err \<noteq> [] then message_or_empty err
                         else js ''Network connection failed.'')\<rparr>))"
  by (simp add: onerror_def Let_def split: prod.splits)

lemma onerror_fst:
  "fst (onerror err s) =
     ConsoleError # fst (stopAudioProcessing
       (s\<lparr>connectionState := ERROR,
          error := Some (if billing_signature (message_or_empty err) then js ''BILLING_REQUIRED''
                         else if message_or_empty err \<noteq> [] then message_or_empty err
                         else js ''Network connection failed.'')\<rparr>))"
  by (simp add: onerror_def Let_def split: prod.splits)

lemma snd_run_Cons: "snd (run dec (e # es) s) = snd (run dec es (snd (step dec e s)))"
  by (simp add: split_beta)

lemma fst_run_Cons:
  "fst (run dec (e # es) s) = fst (step dec e s) @ fst (run dec es (snd (step dec e s)))"
  by (simp add: split_beta)

text \<open>
  C10. \<open>stopAudioProcessing\<close> leaves the chat messages and the recorded error as they
  were. The state after it is the state before with exactly the audio fields reset: the
  recorder (stopped, its ref kept), the stream, the processor node, the two contexts, the
  active set, the cursor, the speaking flag, the volume, the fluency signal and the live
  user transcript. Every other field keeps its value.
\<close>

theorem stopAudioProcessing_frame:
  "messages (snd (stopAudioProcessing s)) = messages s
   \<and> error (snd (stopAudioProcessing s)) = error s
   \<and> snd (stopAudioProcessing s) =
       s\<lparr>mediaRecorderRef := map_option (\<lambda>st. Inactive) (mediaRecorderRef s),
         mediaStreamRef := None, scriptProcessorRef := None, inputAudioContextRef := None,
         outputAudioContextRef := None, activeSourcesRef := [], nextStartTimeRef := 0,
         isModelSpeaking := False, volume := 0, fluencyFeedback := js ''neutral'',
         userTranscript := []\<rparr>"
proof -
  have st: "snd (stopAudioProcessing s) =
       s\<lparr>mediaRecorderRef := map_option (\<lambda>st. Inactive) (mediaRecorderRef s),
         mediaStreamRef := None, scriptProcessorRef := None, inputAudioContextRef := None,
         outputAudioContextRef := None, activeSourcesRef := [], nextStartTimeRef := 0,
         isModelSpeaking := False, volume := 0, fluencyFeedback := js ''neutral'',
         userTranscript := []\<rparr>"
    by (rule stopAudioProcessing_state)
  have "messages (snd (stopAudioProcessing s)) = messages s"
    by (simp add: st)
  moreover have "error (snd (stopAudioProcessing s)) = error s"
    by (simp add: st)
  ultimately show ?thesis
    using st by blast
qed

text \<open>
  C3, as amended. A second \<open>stopAudioProcessing\<close> right after a first makes no call at
  all and changes nothing; after it the active set is empty, the cursor is zero and the
  volume is zero. The connection state is not written by \<open>stopAudioProcessing\<close>: it is
  what the calling callback set. With the error callback first and the close callback
  second, the second makes no release call and the state ends \<open>DISCONNECTED\<close>; with
  the close callback first and the error callback second, the second makes no release
  call (it only logs) and the state ends \<open>ERROR\<close>.
\<close>

theorem teardown_twice:
  "fst (stopAudioProcessing (snd (stopAudioProcessing s))) = []
   \<and> snd (stopAudioProcessing (snd (stopAudioProcessing s))) = snd (stopAudioProcessing s)
   \<and> activeSourcesRef (snd (stopAudioProcessing (snd (stopAudioProcessing s)))) = []
   \<and> nextStartTimeRef (snd (stopAudioProcessing (snd (stopAudioProcessing s)))) = 0
   \<and> volume (snd (stopAudioProcessing (snd (stopAudioProcessing s)))) = 0
   \<and> connectionState (snd (stopAudioProcessing (snd (stopAudioProcessing s)))) = connectionState s
   \<and> fst (onclose (snd (onerror err s))) = []
   \<and> connectionState (snd (onclose (snd (onerror err s)))) = DISCONNECTED
   \<and> fst (onerror err (snd (onclose s))) = [ConsoleError]
   \<and> connectionState (snd (onerror err (snd (onclose s)))) = ERROR"
proof -
  have a: "fst (stopAudioProcessing (snd (stopAudioProcessing s))) = []"
    by (rule second_teardown_silent)
  have b: "snd (stopAudioProcessing (snd (stopAudioProcessing s))) = snd (stopAudioProcessing s)"
    by (rule second_teardown_state)
  have c: "activeSourcesRef (snd (stopAudioProcessing s)) = []"
    "nextStartTimeRef (snd (stopAudioProcessing s)) = 0"
    "volume (snd (stopAudioProcessing s)) = 0"
    "connectionState (snd (stopAudioProcessing s)) = connectionState s"
    by (simp_all add: stopAudioProcessing_state)
  have d: "fst (onclose (snd (onerror err s))) = []"
    by (simp add: onclose_def onerror_snd stopAudioProcessing_effects stopAudioProcessing_state
        split: option.splits)
  have e: "connectionState (snd (onclose (snd (onerror err s)))) = DISCONNECTED"
    by (simp add: onclose_def stopAudioProcessing_state)
  have f: "fst (onerror err (snd (onclose s))) = [ConsoleError]"
    by (simp add: onclose_def onerror_fst stopAudioProcessing_effects stopAudioProcessing_state
        split: option.splits)
  have g: "connectionState (snd (onerror err (snd (onclose s)))) = ERROR"
    by (simp add: onerror_snd stopAudioProcessing_state)
  show ?thesis
    unfolding b using a c d e f g by simp
qed

text \<open>
  The claim as stated fails: a session is opened, the close callback runs and then the
  error callback; the connection state is then \<open>ERROR\<close>, not \<open>DISCONNECTED\<close>.
\<close>

theorem close_then_error_counterexample:
  "connectionState (snd (run (\<lambda>d. None)
      [Connect \<lparr>failure = None, stream = [0], session = Fulfilled\<rparr>, OnOpen, OnClose,
       OnError None]
      initial_state)) \<noteq> DISCONNECTED"
  unfolding snd_run_Cons
  by (simp add: onerror_snd stopAudioProcessing_state)

subsection \<open>The error callback\<close>

lemma billing_signature_empty: "\<not> billing_signature []"
  by (simp add: billing_signature_def js_def)

text \<open>
  C5. Whatever error the error callback is handed, the connection state becomes
  \<open>ERROR\<close>. If the message text carries the signature (it contains
  \<open>Requested entity was not found\<close> or \<open>404\<close>), the surfaced error is the sentinel
  \<open>BILLING_REQUIRED\<close>; if it does not and the text is not empty, the surfaced error is
  the text itself; if the error, its message, or the text of the message is missing
  (the text empty), the surfaced error is \<open>Network connection failed.\<close>
\<close>

theorem onerror_surfaced_error:
  "connectionState (snd (onerror err s)) = ERROR
   \<and> (billing_signature (message_or_empty err) \<longrightarrow>
        error (snd (onerror err s)) = Some (js ''BILLING_REQUIRED''))
   \<and> (\<not> billing_signature (message_or_empty err) \<and> message_or_empty err \<noteq> [] \<longrightarrow>
        error (snd (onerror err s)) = Some (message_or_empty err))
   \<and> error (snd (onerror None s)) = Some (js ''Network connection failed.'')
   \<and> error (snd (onerror (Some \<lparr>message = None\<rparr>) s)) = Some (js ''Network connection failed.'')
   \<and> error (snd (onerror (Some \<lparr>message = Some []\<rparr>) s)) = Some (js ''Network connection failed.'')"
proof -
  have e: "\<And>x. error (snd (onerror x s)) =
      Some (if billing_signature (message_or_empty x) then js ''BILLING_REQUIRED''
            else if message_or_empty x \<noteq> [] then message_or_empty x
            else js ''Network connection failed.'')"
    by (simp add: onerror_snd stopAudioProcessing_state)
  have c: "connectionState (snd (onerror err s)) = ERROR"
    by (simp add: onerror_snd stopAudioProcessing_state)
  have m: "message_or_empty None = []" "message_or_empty (Some \<lparr>message = None\<rparr>) = []"
    "message_or_empty (Some \<lparr>message = Some []\<rparr>) = []"
    by (simp_all add: message_or_empty_def)
  show ?thesis
    using c by (simp add: e m billing_signature_empty)
qed

theorem onerror_surfaced_error_witness:
  "billing_signature (js ''Error 404: model unavailable'')
   \<and> error (snd (onerror (Some \<lparr>message = Some (js ''Error 404: model unavailable'')\<rparr>)
        initial_state)) = Some (js ''BILLING_REQUIRED'')
   \<and> \<not> billing_signature (js ''socket hang up'') \<and> js ''socket hang up'' \<noteq> []
   \<and> error (snd (onerror (Some \<lparr>message = Some (js ''socket hang up'')\<rparr>) initial_state))
       = Some (js ''socket hang up'')
   \<and> connectionState (snd (onerror (Some \<lparr>message = Some (js ''socket hang up'')\<rparr>)
        initial_state)) = ERROR"
proof -
  have a: "billing_signature (js ''Error 404: model unavailable'')"
    by (simp add: billing_signature_def js_def)
  have b: "\<not> billing_signature (js ''socket hang up'')"
    by (simp add: billing_signature_def js_def)
  have n: "js ''socket hang up'' \<noteq> []"
    by (simp add: js_def)
  have m: "\<And>t. message_or_empty (Some \<lparr>message = Some t\<rparr>) = t"
    by (simp add: message_or_empty_def)
  show ?thesis
    using a b n
      onerror_surfaced_error
        [of "Some \<lparr>message = Some (js ''Error 404: model unavailable'')\<rparr>" initial_state]
      onerror_surfaced_error [of "Some \<lparr>message = Some (js ''socket hang up'')\<rparr>" initial_state]
    by (simp only: m) blast
qed

subsection \<open>\<open>disconnect\<close>\<close>

lemma stop_effects_session:
  "fst (stopAudioProcessing (s\<lparr>sessionPromiseRef := p\<rparr>)) = fst (stopAudioProcessing s)"
  by (simp add: stopAudioProcessing_effects)

lemma disconnect_eq:
  "disconnect ct s =
     ((if sessionPromiseRef s = Some Fulfilled then [SessionClose] else [])
        @ fst (stopAudioProcessing s),
      (if audioChunksRef s = [] then None
       else Some (new_Blob (audioChunksRef s) (js ''audio/webm''))),
      (snd (stopAudioProcessing s))\<lparr>sessionPromiseRef := None, connectionState := DISCONNECTED\<rparr>)"
proof (cases "sessionPromiseRef s")
  case None
  then have "s\<lparr>sessionPromiseRef := None\<rparr> = s" by simp
  with None show ?thesis
    by (simp add: disconnect_def and_then_def close_session_def split_beta Let_def
        stopAudioProcessing_state)
next
  case (Some p)
  then show ?thesis
    by (cases p)
      (simp_all add: disconnect_def and_then_def close_session_def await_close_def split_beta
        Let_def stopAudioProcessing_state stop_effects_session)
qed

text \<open>
  What \<open>disconnect\<close> does, on every state and whether or not \<open>close()\<close> throws: the
  calls it makes are the close of the session handle, exactly when the stored promise
  has produced one, followed by the release calls of \<open>stopAudioProcessing\<close>; a
  throwing \<open>close()\<close> changes neither the calls, nor the result, nor the state; the
  result is the blob of the chunks that \<open>audioChunksRef\<close> holds at that moment (type
  \<open>audio/webm\<close>) when there is at least one and nothing otherwise; afterwards the
  connection state is \<open>DISCONNECTED\<close>, the session ref is cleared and no local
  resource is held.
\<close>

lemma disconnect_result:
  "fst (disconnect ct s) =
     (if sessionPromiseRef s = Some Fulfilled then [SessionClose] else [])
       @ fst (stopAudioProcessing s)
   \<and> disconnect True s = disconnect False s
   \<and> fst (snd (disconnect ct s)) =
       (if audioChunksRef s = [] then None
        else Some (new_Blob (audioChunksRef s) (js ''audio/webm'')))
   \<and> snd (snd (disconnect ct s)) =
       (snd (stopAudioProcessing s))\<lparr>sessionPromiseRef := None, connectionState := DISCONNECTED\<rparr>
   \<and> connectionState (snd (snd (disconnect ct s))) = DISCONNECTED
   \<and> sessionPromiseRef (snd (snd (disconnect ct s))) = None
   \<and> mediaStreamRef (snd (snd (disconnect ct s))) = None
   \<and> scriptProcessorRef (snd (snd (disconnect ct s))) = None
   \<and> inputAudioContextRef (snd (snd (disconnect ct s))) = None
   \<and> outputAudioContextRef (snd (snd (disconnect ct s))) = None
   \<and> mediaRecorderRef (snd (snd (disconnect ct s))) \<noteq> Some Recording
   \<and> activeSourcesRef (snd (snd (disconnect ct s))) = []"
proof -
  have r: "mediaRecorderRef (snd (stopAudioProcessing s)) \<noteq> Some Recording"
    by (cases "mediaRecorderRef s") (simp_all add: stopAudioProcessing_state)
  show ?thesis
    unfolding disconnect_eq using r by (simp add: stopAudioProcessing_state)
qed

subsection \<open>A failing \<open>connect\<close>\<close>

lemma try_block_throws:
  "failure env = Some (st, err) \<Longrightarrow> st \<in> set sts \<Longrightarrow> fst (try_block env sts s) = Some err"
  by (induction sts arbitrary: s) auto

lemma all_steps: "st \<in> set connect_steps"
  by (cases st) (simp_all add: connect_steps_def)

lemma connect_throws:
  assumes "failure env = Some (st, err)"
  shows "connect env s = connect_catch err (snd (try_block env connect_steps (connect_begin s)))"
proof -
  have "fst (try_block env connect_steps (connect_begin s)) = Some err"
    using assms all_steps by (rule try_block_throws)
  then show ?thesis
    by (cases "try_block env connect_steps (connect_begin s)") (simp add: connect_def)
qed

lemma catch_message_nonempty: "catch_message err \<noteq> []"
  by (simp add: catch_message_def js_def split: option.splits)

lemma connect_catch_state:
  "snd (connect_catch err s) =
     (snd (stopAudioProcessing s))\<lparr>error := Some (catch_message err), connectionState := ERROR\<rparr>"
  by (simp add: connect_catch_def stopAudioProcessing_state)

lemma connect_catch_effects:
  "fst (connect_catch err s) = fst (stopAudioProcessing s)"
  by (simp add: connect_catch_def stopAudioProcessing_effects)

text \<open>
  What \<open>connect\<close> leaves behind when no statement of its \<open>try\<close> block throws.
\<close>

lemma connect_ok:
  assumes "failure env = None"
  shows "fst (connect env s) = []"
    "connectionState (snd (connect env s)) = CONNECTING"
    "error (snd (connect env s)) = None"
    "sessionPromiseRef (snd (connect env s)) = Some (session env)"
    "mediaStreamRef (snd (connect env s)) = Some (stream env)"
    "mediaRecorderRef (snd (connect env s)) = Some Recording"
    "audioChunksRef (snd (connect env s)) = []"
  using assms
  by (simp_all add: connect_def connect_steps_def connect_begin_def setMessages_reset_def)

text \<open>
  C7, as amended. If a statement of the \<open>try\<close> block of \<open>connect\<close> throws (creating or
  resuming a context, acquiring the microphone, creating or starting the recorder,
  creating or wiring the processor, creating the client or the call of
  \<open>ai.live.connect\<close> itself), then \<open>connect\<close> returns with the connection state
  \<open>ERROR\<close> and a non-empty error text recorded (the exception's message when it has
  one, the fixed text otherwise); the calls it makes are the release calls of
  \<open>stopAudioProcessing\<close> on the state reached when the exception was thrown, and
  afterwards no stream, processor or context is held, the recorder is not recording and
  the active set is empty. The promise of \<open>ai.live.connect\<close> is stored without being
  awaited: when no statement throws, \<open>connect\<close> returns with the state \<open>CONNECTING\<close>, no
  error recorded and no call made, whatever that promise settles to.
\<close>

theorem connect_failure:
  "(failure env = Some (st, err) \<longrightarrow>
      connectionState (snd (connect env s)) = ERROR
      \<and> error (snd (connect env s)) = Some (catch_message err)
      \<and> catch_message err \<noteq> []
      \<and> (\<forall>t. message err = Some t \<and> t \<noteq> [] \<longrightarrow> catch_message err = t)
      \<and> fst (connect env s) =
          fst (stopAudioProcessing (snd (try_block env connect_steps (connect_begin s))))
      \<and> mediaStreamRef (snd (connect env s)) = None
      \<and> scriptProcessorRef (snd (connect env s)) = None
      \<and> inputAudioContextRef (snd (connect env s)) = None
      \<and> outputAudioContextRef (snd (connect env s)) = None
      \<and> mediaRecorderRef (snd (connect env s)) \<noteq> Some Recording
      \<and> activeSourcesRef (snd (connect env s)) = [])
   \<and> (failure env = None \<longrightarrow>
      fst (connect env s) = []
      \<and> connectionState (snd (connect env s)) = CONNECTING
      \<and> error (snd (connect env s)) = None
      \<and> sessionPromiseRef (snd (connect env s)) = Some (session env))"
proof (intro conjI impI)
  assume f: "failure env = Some (st, err)"
  let ?s1 = "snd (try_block env connect_steps (connect_begin s))"
  have c: "connect env s = connect_catch err ?s1"
    using f by (rule connect_throws)
  have r: "mediaRecorderRef (snd (stopAudioProcessing ?s1)) \<noteq> Some Recording"
    by (cases "mediaRecorderRef ?s1") (simp_all add: stopAudioProcessing_state)
  show "connectionState (snd (connect env s)) = ERROR"
    unfolding c connect_catch_state by simp
  show "error (snd (connect env s)) = Some (catch_message err)"
    unfolding c connect_catch_state by simp
  show "catch_message err \<noteq> []"
    by (rule catch_message_nonempty)
  show "\<forall>t. message err = Some t \<and> t \<noteq> [] \<longrightarrow> catch_message err = t"
    by (simp add: catch_message_def)
  show "fst (connect env s) = fst (stopAudioProcessing ?s1)"
    unfolding c by (rule connect_catch_effects)
  show "mediaStreamRef (snd (connect env s)) = None"
    unfolding c connect_catch_state by (simp add: stopAudioProcessing_state)
  show "scriptProcessorRef (snd (connect env s)) = None"
    unfolding c connect_catch_state by (simp add: stopAudioProcessing_state)
  show "inputAudioContextRef (snd (connect env s)) = None"
    unfolding c connect_catch_state by (simp add: stopAudioProcessing_state)
  show "outputAudioContextRef (snd (connect env s)) = None"
    unfolding c connect_catch_state by (simp add: stopAudioProcessing_state)
  show "mediaRecorderRef (snd (connect env s)) \<noteq> Some Recording"
    unfolding c connect_catch_state using r by simp
  show "activeSourcesRef (snd (connect env s)) = []"
    unfolding c connect_catch_state by (simp add: stopAudioProcessing_state)
next
  assume "failure env = None"
  then show "fst (connect env s) = []" by (rule connect_ok)
next
  assume "failure env = None"
  then show "connectionState (snd (connect env s)) = CONNECTING" by (rule connect_ok)
next
  assume "failure env = None"
  then show "error (snd (connect env s)) = None" by (rule connect_ok)
next
  assume "failure env = None"
  then show "sessionPromiseRef (snd (connect env s)) = Some (session env)" by (rule connect_ok)
qed

text \<open>
  On a fresh hook, with \<open>ai.live.connect\<close> throwing \<open>Permission denied\<close> after
  everything else was set up: the recorder, the track, the processor and both contexts
  are released. With nothing throwing, the state is \<open>CONNECTING\<close>.
\<close>

theorem connect_failure_witness:
  "connectionState (snd (connect
        \<lparr>failure = Some (LiveConnect, \<lparr>message = Some (js ''Permission denied'')\<rparr>),
         stream = [0], session = Fulfilled\<rparr> initial_state)) = ERROR
   \<and> error (snd (connect
        \<lparr>failure = Some (LiveConnect, \<lparr>message = Some (js ''Permission denied'')\<rparr>),
         stream = [0], session = Fulfilled\<rparr> initial_state)) = Some (js ''Permission denied'')
   \<and> fst (connect
        \<lparr>failure = Some (LiveConnect, \<lparr>message = Some (js ''Permission denied'')\<rparr>),
         stream = [0], session = Fulfilled\<rparr> initial_state)
       = [RecorderStop, TrackStop 0, ProcessorDisconnect, InputContextClose, OutputContextClose]
   \<and> connectionState (snd (connect \<lparr>failure = None, stream = [0], session = Fulfilled\<rparr>
        initial_state)) = CONNECTING
   \<and> sessionPromiseRef (snd (connect \<lparr>failure = None, stream = [0], session = Fulfilled\<rparr>
        initial_state)) = Some Fulfilled"
proof -
  let ?err = "\<lparr>message = Some (js ''Permission denied'')\<rparr>"
  let ?env = "\<lparr>failure = Some (LiveConnect, ?err), stream = [0], session = Fulfilled\<rparr>"
  let ?ok = "\<lparr>failure = None, stream = [0], session = Fulfilled\<rparr>"
  have f: "failure ?env = Some (LiveConnect, ?err)" "failure ?ok = None" "session ?ok = Fulfilled"
    "message ?err = Some (js ''Permission denied'')"
    by simp_all
  have n: "js ''Permission denied'' \<noteq> []"
    by (simp add: js_def)
  have fx: "fst (stopAudioProcessing (snd (try_block ?env connect_steps (connect_begin initial_state))))
      = [RecorderStop, TrackStop 0, ProcessorDisconnect, InputContextClose, OutputContextClose]"
    by (simp add: stopAudioProcessing_effects connect_steps_def connect_begin_def
        setMessages_reset_def initial_state_def)
  note a = connect_failure [of ?env LiveConnect ?err initial_state]
  note b = connect_failure [of ?ok LiveConnect ?err initial_state]
  have m: "catch_message ?err = js ''Permission denied''"
    using a f(1) f(4) n by blast
  have a1: "connectionState (snd (connect ?env initial_state)) = ERROR"
    using a f(1) by blast
  have a2: "error (snd (connect ?env initial_state)) = Some (catch_message ?err)"
    using a f(1) by blast
  have a3: "fst (connect ?env initial_state) =
      fst (stopAudioProcessing (snd (try_block ?env connect_steps (connect_begin initial_state))))"
    using a f(1) by blast
  have b1: "connectionState (snd (connect ?ok initial_state)) = CONNECTING"
    using b f(2) by blast
  have b2: "sessionPromiseRef (snd (connect ?ok initial_state)) = Some (session ?ok)"
    using b f(2) by blast
  show ?thesis
    unfolding a1 a2 a3 b1 b2 m fx f(3) by simp
qed

text \<open>
  The claim as stated fails: the remote session fails to open and the stored promise is
  rejected. Nothing throws inside \<open>connect\<close>: it has returned with the state
  \<open>CONNECTING\<close>, no error recorded, nothing released (the stream is held, the recorder
  is recording).
\<close>

theorem rejected_open_counterexample:
  "fst (connect \<lparr>failure = None, stream = [0], session = Rejected\<rparr> initial_state) = []
   \<and> sessionPromiseRef (snd (connect \<lparr>failure = None, stream = [0], session = Rejected\<rparr>
        initial_state)) = Some Rejected
   \<and> connectionState (snd (connect \<lparr>failure = None, stream = [0], session = Rejected\<rparr>
        initial_state)) = CONNECTING
   \<and> error (snd (connect \<lparr>failure = None, stream = [0], session = Rejected\<rparr>
        initial_state)) = None
   \<and> mediaStreamRef (snd (connect \<lparr>failure = None, stream = [0], session = Rejected\<rparr>
        initial_state)) = Some [0]
   \<and> mediaRecorderRef (snd (connect \<lparr>failure = None, stream = [0], session = Rejected\<rparr>
        initial_state)) = Some Recording"
proof -
  have f: "failure \<lparr>failure = None, stream = [0], session = Rejected\<rparr> = None"
    by simp
  show ?thesis
    using connect_ok [OF f, of initial_state] by simp
qed

subsection \<open>The recording returned by \<open>disconnect\<close>\<close>

lemma keeps_recording_step:
  assumes "keeps_recording e"
  shows "audioChunksRef (snd (step dec e s)) = audioChunksRef s
     \<and> mediaRecorderRef (snd (step dec e s)) = mediaRecorderRef s"
proof (cases e)
  case OnOpen
  then show ?thesis by (simp add: onopen_def)
next
  case (OnMessage m env)
  then show ?thesis
    by (auto simp: onmessage_def split_beta turn_complete_def finalize_user_def
        finalize_model_def setMessages_append_def output_fragment_def input_fragment_def
        play_audio_def audio_begin_def audio_resume_def Let_def split: option.splits)
next
  case (SourceEnded src)
  then show ?thesis by (simp add: source_ended_def Let_def)
next
  case (AudioProcess frame)
  then show ?thesis by (simp add: onaudioprocess_def split: option.splits)
next
  case (SetIsMuted b)
  then show ?thesis by simp
qed (use assms in simp_all)

lemma run_keeps_recording:
  "\<forall>e\<in>set es. keeps_recording e \<Longrightarrow>
   audioChunksRef (snd (run dec es s)) = audioChunksRef s
   \<and> mediaRecorderRef (snd (run dec es s)) = mediaRecorderRef s"
proof (induction es arbitrary: s)
  case Nil
  then show ?case by simp
next
  case (Cons e es)
  then have k: "keeps_recording e" and rest: "\<forall>e\<in>set es. keeps_recording e"
    by simp_all
  show ?case
    unfolding snd_run_Cons
    using Cons.IH [OF rest, of "snd (step dec e s)"] keeps_recording_step [OF k, of dec s]
    by simp
qed

text \<open>
  C6. A session is opened by a \<open>connect\<close> in which nothing throws, and until
  \<open>disconnect\<close> only callbacks run that leave the recorder alone; the recorder, started
  without a timeslice, delivers nothing before it is stopped. Then the recorder has been
  recording throughout, \<open>disconnect\<close> stops it, and \<open>disconnect\<close> returns nothing: it
  reads \<open>audioChunksRef\<close> right after \<open>stop()\<close>, before the \<open>dataavailable\<close> event
  that carries the recording. When that event comes, its chunk lands in
  \<open>audioChunksRef\<close>, after \<open>disconnect\<close> has returned.
\<close>

theorem disconnect_live_session:
  assumes "failure env = None" and "\<forall>e\<in>set body. keeps_recording e"
  shows "mediaRecorderRef (snd (run dec (Connect env # body) s)) = Some Recording
   \<and> RecorderStop \<in> set (fst (disconnect ct (snd (run dec (Connect env # body) s))))
   \<and> fst (snd (disconnect ct (snd (run dec (Connect env # body) s)))) = None
   \<and> (0 < blob_size chunk \<longrightarrow>
        audioChunksRef (ondataavailable chunk
          (snd (snd (disconnect ct (snd (run dec (Connect env # body) s)))))) = [chunk])"
proof -
  let ?s1 = "snd (run dec (Connect env # body) s)"
  have s1: "?s1 = snd (run dec body (snd (connect env s)))"
    unfolding snd_run_Cons by simp
  have k: "audioChunksRef ?s1 = []" "mediaRecorderRef ?s1 = Some Recording"
    unfolding s1
    using run_keeps_recording [OF assms(2), of dec "snd (connect env s)"] connect_ok [OF assms(1), of s]
    by simp_all
  have st: "RecorderStop \<in> set (fst (stopAudioProcessing ?s1))"
    unfolding stopAudioProcessing_effects using k(2) by simp
  have d1: "RecorderStop \<in> set (fst (disconnect ct ?s1))"
    unfolding disconnect_eq using st by simp
  have d2: "fst (snd (disconnect ct ?s1)) = None"
    unfolding disconnect_eq using k(1) by simp
  have d3: "audioChunksRef (snd (snd (disconnect ct ?s1))) = []"
    unfolding disconnect_eq using k(1) by (simp add: stopAudioProcessing_state)
  have d4: "0 < blob_size chunk \<longrightarrow>
        audioChunksRef (ondataavailable chunk (snd (snd (disconnect ct ?s1)))) = [chunk]"
    using d3 by (simp add: ondataavailable_def)
  show ?thesis
    by (intro conjI) (fact k(2) d1 d2 d4)+
qed

text \<open>
  A session with one frame of microphone audio processed; the recording arrives as a
  chunk of four bytes after \<open>disconnect\<close> has returned nothing.
\<close>

theorem disconnect_live_session_witness:
  "fst (snd (disconnect False (snd (run decoder_by_length
      [Connect \<lparr>failure = None, stream = [0], session = Fulfilled\<rparr>, OnOpen,
       AudioProcess [1 / 2, - 1 / 2]] initial_state)))) = None
   \<and> RecorderStop \<in> set (fst (disconnect False (snd (run decoder_by_length
      [Connect \<lparr>failure = None, stream = [0], session = Fulfilled\<rparr>, OnOpen,
       AudioProcess [1 / 2, - 1 / 2]] initial_state))))
   \<and> audioChunksRef (ondataavailable (Blob [26, 69, 223, 163] (js ''audio/webm''))
        (snd (snd (disconnect False (snd (run decoder_by_length
          [Connect \<lparr>failure = None, stream = [0], session = Fulfilled\<rparr>, OnOpen,
           AudioProcess [1 / 2, - 1 / 2]] initial_state))))))
       = [Blob [26, 69, 223, 163] (js ''audio/webm'')]"
proof -
  let ?env = "\<lparr>failure = None, stream = [0], session = Fulfilled\<rparr>"
  have f: "failure ?env = None"
    by simp
  have b: "\<forall>e\<in>set [OnOpen, AudioProcess [1 / 2, - 1 / 2]]. keeps_recording e"
    by simp
  have z: "0 < blob_size (Blob [26, 69, 223, 163] (js ''audio/webm''))"
    by (simp add: blob_size_def)
  show ?thesis
    using disconnect_live_session [OF f b, of decoder_by_length initial_state False
        "Blob [26, 69, 223, 163] (js ''audio/webm'')"] z
    by blast
qed

subsection \<open>The chat history\<close>

lemma dropWhile_all: "(\<forall>x\<in>set (dropWhile P t). P x) \<longleftrightarrow> (\<forall>x\<in>set t. P x)"
proof
  assume a: "\<forall>x\<in>set (dropWhile P t). P x"
  show "\<forall>x\<in>set t. P x"
  proof (rule ccontr)
    assume "\<not> (\<forall>x\<in>set t. P x)"
    then have ne: "dropWhile P t \<noteq> []"
      by (simp add: dropWhile_eq_Nil_conv)
    then have "\<not> P (hd (dropWhile P t))"
      by (rule hd_dropWhile)
    moreover have "hd (dropWhile P t) \<in> set (dropWhile P t)"
      using ne by simp
    ultimately show False
      using a by blast
  qed
next
  assume "\<forall>x\<in>set t. P x"
  then show "\<forall>x\<in>set (dropWhile P t). P x"
    by (meson set_dropWhileD)
qed

lemma trim_has_text: "trim t \<noteq> [] \<longleftrightarrow> has_text t"
  by (simp add: trim_def has_text_def dropWhile_eq_Nil_conv dropWhile_all list_ex_iff)

lemma play_audio_keeps:
  "messages (snd (play_audio dec m now s)) = messages s"
  "currentInputRef (snd (play_audio dec m now s)) = currentInputRef s"
  "currentOutputRef (snd (play_audio dec m now s)) = currentOutputRef s"
  by (simp_all add: play_audio_def audio_begin_def audio_resume_def Let_def split: option.splits)

lemma input_fragment_fields:
  "messages (input_fragment m s) = messages s"
  "currentInputRef (input_fragment m s) = currentInputRef s @ fragment (inputTranscription m)"
  "currentOutputRef (input_fragment m s) = currentOutputRef s"
  by (simp_all add: input_fragment_def fragment_def split: option.splits)

lemma output_fragment_fields:
  "messages (output_fragment m s) = messages s"
  "currentInputRef (output_fragment m s) = currentInputRef s"
  "currentOutputRef (output_fragment m s) = currentOutputRef s @ fragment (outputTranscription m)"
  by (simp_all add: output_fragment_def fragment_def split: option.splits)

lemma finalize_user_fields:
  "messages (finalize_user now s) =
     messages s @ (if has_text (currentInputRef s) then [user_message now (currentInputRef s)] else [])"
  "currentInputRef (finalize_user now s) = (if has_text (currentInputRef s) then [] else currentInputRef s)"
  "currentOutputRef (finalize_user now s) = currentOutputRef s"
  by (simp_all add: finalize_user_def setMessages_append_def user_message_def trim_has_text)

lemma finalize_model_fields:
  "messages (finalize_model now s) =
     messages s @ (if has_text (currentOutputRef s) then [model_message now (currentOutputRef s)] else [])"
  "currentOutputRef (finalize_model now s) = (if has_text (currentOutputRef s) then [] else currentOutputRef s)"
  "currentInputRef (finalize_model now s) = currentInputRef s"
  by (simp_all add: finalize_model_def setMessages_append_def model_message_def trim_has_text)

lemma onmessage_snd:
  "snd (onmessage dec m env s) =
     turn_complete m env (output_fragment m (input_fragment m (snd (play_audio dec m (currentTime env) s))))"
  by (simp add: onmessage_def split_beta)

lemma onmessage_fst:
  "fst (onmessage dec m env s) = fst (play_audio dec m (currentTime env) s)"
  by (simp add: onmessage_def split_beta)

lemma onmessage_messages:
  "messages (snd (onmessage dec m env s)) =
     messages s @ (if turnComplete m then finalized m env s else [])"
  by (simp add: onmessage_snd turn_complete_def finalized_def finalize_user_fields
      finalize_model_fields output_fragment_fields input_fragment_fields play_audio_keeps)

lemma onmessage_accumulators:
  "currentInputRef (snd (onmessage dec m env s)) =
     (if turnComplete m \<and> has_text (currentInputRef s @ fragment (inputTranscription m)) then []
      else currentInputRef s @ fragment (inputTranscription m))"
  "currentOutputRef (snd (onmessage dec m env s)) =
     (if turnComplete m \<and> has_text (currentOutputRef s @ fragment (outputTranscription m)) then []
      else currentOutputRef s @ fragment (outputTranscription m))"
  by (simp_all add: onmessage_snd turn_complete_def finalize_user_fields
      finalize_model_fields output_fragment_fields input_fragment_fields play_audio_keeps)


lemma setup_step_messages: "messages (setup_step env st s) = messages s"
  by (cases st) simp_all

lemma try_block_messages: "messages (snd (try_block env sts s)) = messages s"
  by (induction sts arbitrary: s) (auto simp: setup_step_messages split: option.splits)

lemma connect_messages: "messages (snd (connect env s)) = []"
proof -
  have b: "messages (connect_begin s) = []"
    by (simp add: connect_begin_def setMessages_reset_def)
  have t: "messages (snd (try_block env connect_steps (connect_begin s))) = []"
    by (simp add: try_block_messages b)
  show ?thesis
  proof (cases "try_block env connect_steps (connect_begin s)")
    case (Pair r s1)
    with t have s1: "messages s1 = []" by simp
    show ?thesis
    proof (cases r)
      case None
      with Pair s1 show ?thesis by (simp add: connect_def)
    next
      case (Some err)
      with Pair s1 show ?thesis
        by (simp add: connect_def connect_catch_def stopAudioProcessing_state)
    qed
  qed
qed

lemma disconnect_messages: "messages (snd (snd (disconnect ct s))) = messages s"
  by (simp add: disconnect_eq stopAudioProcessing_state)

lemma step_messages:
  "messages (snd (step dec e s)) =
     (case e of
        Connect env \<Rightarrow> []
      | OnMessage m env \<Rightarrow> messages s @ (if turnComplete m then finalized m env s else [])
      | _ \<Rightarrow> messages s)"
proof (cases e)
  case (Connect env)
  then show ?thesis by (simp add: connect_messages)
next
  case OnOpen
  then show ?thesis by (simp add: onopen_def)
next
  case (OnMessage m env)
  then show ?thesis by (simp add: onmessage_messages)
next
  case OnClose
  then show ?thesis by (simp add: onclose_def stopAudioProcessing_state)
next
  case (OnError err)
  then show ?thesis by (simp add: onerror_snd stopAudioProcessing_state)
next
  case (Disconnect ct)
  then show ?thesis by (simp add: split_beta disconnect_messages)
next
  case (SourceEnded src)
  then show ?thesis by (simp add: source_ended_def Let_def)
next
  case (DataAvailable d)
  then show ?thesis by (simp add: ondataavailable_def)
next
  case (AudioProcess f)
  then show ?thesis by (simp add: onaudioprocess_def split: option.splits)
next
  case (SetIsMuted b)
  then show ?thesis by simp
qed

lemma finalized_length: "length (finalized m env s) \<le> 2"
  by (simp add: finalized_def)


lemma step_extends:
  assumes "\<forall>cenv. e \<noteq> Connect cenv"
  shows "\<exists>new. messages (snd (step dec e s)) = messages s @ new \<and> length new \<le> 2"
proof (cases e)
  case (Connect env)
  with assms show ?thesis by simp
next
  case (OnMessage m env)
  have "messages (snd (step dec e s)) = messages s @ (if turnComplete m then finalized m env s else [])"
    using OnMessage by (simp add: onmessage_messages)
  moreover have "length (if turnComplete m then finalized m env s else []) \<le> 2"
    by (simp add: finalized_length)
  ultimately show ?thesis by blast
qed (simp_all del: step.simps add: step_messages)

lemma run_prefix:
  "\<forall>cenv. Connect cenv \<notin> set es \<Longrightarrow> prefix (messages s) (messages (snd (run dec es s)))"
proof (induction es arbitrary: s)
  case Nil
  then show ?case by simp
next
  case (Cons e es)
  from Cons.prems have ne: "\<forall>cenv. e \<noteq> Connect cenv" and rest: "\<forall>cenv. Connect cenv \<notin> set es"
    by auto
  from step_extends [OF ne] obtain new where
    "messages (snd (step dec e s)) = messages s @ new" by blast
  then have "prefix (messages s) (messages (snd (step dec e s)))"
    by simp
  moreover have "prefix (messages (snd (step dec e s))) (messages (snd (run dec es (snd (step dec e s)))))"
    using rest by (rule Cons.IH)
  ultimately show ?case
    unfolding snd_run_Cons by (rule prefix_order.trans)
qed

text \<open>
  C8. The chat message list is append-only. \<open>setMessages\<close> is called in two ways: to
  append one message at the end, and to reset the list to empty. The reset happens in
  \<open>connect\<close> (its first statements), which always leaves the list empty. Every other
  callback leaves the list as it was with at most two messages appended at the end (a
  turn-complete signal makes up to two appending calls). Hence over any run of callbacks
  without a \<open>connect\<close> the old list is a prefix of the new one: no message in it is
  modified, removed or reordered.
\<close>

theorem messages_append_only:
  "messages (setMessages_append x s) = messages s @ [x]
   \<and> messages (setMessages_reset s) = []
   \<and> messages (snd (step dec (Connect cenv) s)) = []
   \<and> ((\<forall>c. e \<noteq> Connect c) \<longrightarrow>
        (\<exists>new. messages (snd (step dec e s)) = messages s @ new \<and> length new \<le> 2))
   \<and> ((\<forall>c. Connect c \<notin> set es) \<longrightarrow> prefix (messages s) (messages (snd (run dec es s))))"
proof -
  have a: "messages (setMessages_append x s) = messages s @ [x]"
    by (simp add: setMessages_append_def)
  have b: "messages (setMessages_reset s) = []"
    by (simp add: setMessages_reset_def)
  have c: "messages (snd (step dec (Connect cenv) s)) = []"
    by (simp add: connect_messages)
  show ?thesis
    using a b c step_extends [of e dec s] run_prefix [of es s dec] by blast
qed

text \<open>
  C4, as amended. On a turn-complete signal a user message is appended for the user's
  accumulated utterance (with the fragment the same message carries) exactly when the
  utterance has a code unit that is not white space, and the accumulator is then
  cleared; otherwise nothing is appended for it and it is not cleared. The same holds
  for the model's utterance, whose message comes after the user's. In particular, a user
  utterance without text and a model utterance with text give exactly one message, of
  role model. A callback that makes the list longer is an inbound message with the
  turn-complete flag.
\<close>

theorem turn_complete_finalizes:
  assumes "turnComplete m"
  shows "(\<exists>new. messages (snd (onmessage dec m env s)) = messages s @ new
            \<and> map role new = finalized_roles m s)
   \<and> currentInputRef (snd (onmessage dec m env s)) =
       (if has_text (currentInputRef s @ fragment (inputTranscription m)) then []
        else currentInputRef s @ fragment (inputTranscription m))
   \<and> currentOutputRef (snd (onmessage dec m env s)) =
       (if has_text (currentOutputRef s @ fragment (outputTranscription m)) then []
        else currentOutputRef s @ fragment (outputTranscription m))
   \<and> (\<not> has_text (currentInputRef s @ fragment (inputTranscription m))
        \<and> has_text (currentOutputRef s @ fragment (outputTranscription m)) \<longrightarrow>
        (\<exists>x. messages (snd (onmessage dec m env s)) = messages s @ [x] \<and> role x = Model))
   \<and> (\<forall>e. length (messages s) < length (messages (snd (step dec e s))) \<longrightarrow>
          (\<exists>m' env'. e = OnMessage m' env' \<and> turnComplete m'))"
proof -
  have a: "messages (snd (onmessage dec m env s)) = messages s @ finalized m env s"
    using assms by (simp add: onmessage_messages)
  have r: "map role (finalized m env s) = finalized_roles m s"
    by (simp add: finalized_def finalized_roles_def user_message_def model_message_def)
  have ex: "\<exists>new. messages (snd (onmessage dec m env s)) = messages s @ new
            \<and> map role new = finalized_roles m s"
    using a r by blast
  have one: "\<not> has_text (currentInputRef s @ fragment (inputTranscription m))
        \<and> has_text (currentOutputRef s @ fragment (outputTranscription m)) \<longrightarrow>
        (\<exists>x. messages (snd (onmessage dec m env s)) = messages s @ [x] \<and> role x = Model)"
  proof (intro impI)
    assume h: "\<not> has_text (currentInputRef s @ fragment (inputTranscription m))
        \<and> has_text (currentOutputRef s @ fragment (outputTranscription m))"
    let ?x = "model_message (dateNowModel env) (currentOutputRef s @ fragment (outputTranscription m))"
    from h have f: "finalized m env s = [?x]"
      by (simp add: finalized_def)
    have rx: "role ?x = Model"
      by (simp add: model_message_def)
    have "messages (snd (onmessage dec m env s)) = messages s @ [?x]"
      unfolding a f by (rule refl)
    with rx show "\<exists>x. messages (snd (onmessage dec m env s)) = messages s @ [x] \<and> role x = Model"
      by (intro exI conjI)
  qed
  have only: "\<forall>e. length (messages s) < length (messages (snd (step dec e s))) \<longrightarrow>
          (\<exists>m' env'. e = OnMessage m' env' \<and> turnComplete m')"
  proof (intro allI impI)
    fix e
    assume g: "length (messages s) < length (messages (snd (step dec e s)))"
    show "\<exists>m' env'. e = OnMessage m' env' \<and> turnComplete m'"
    proof (cases e)
      case (OnMessage m' env')
      with g have "turnComplete m'"
        by (simp add: onmessage_messages split: if_splits)
      with OnMessage show ?thesis by blast
    qed (use g in \<open>simp_all del: step.simps add: step_messages\<close>)
  qed
  have acc: "currentInputRef (snd (onmessage dec m env s)) =
       (if has_text (currentInputRef s @ fragment (inputTranscription m)) then []
        else currentInputRef s @ fragment (inputTranscription m))"
    "currentOutputRef (snd (onmessage dec m env s)) =
       (if has_text (currentOutputRef s @ fragment (outputTranscription m)) then []
        else currentOutputRef s @ fragment (outputTranscription m))"
    using assms by (simp_all add: onmessage_accumulators)
  show ?thesis
    by (intro conjI) (fact ex acc one only)+
qed

lemma has_text_examples:
  "has_text (js ''Hello'')" "has_text (js ''Hi, I am Koli.'')" "\<not> has_text (js '' '')"
  "\<not> has_text []"
  by (simp_all add: has_text_def js_def is_white_space_def)

theorem messages_append_only_witness:
  "(\<forall>c. OnMessage \<lparr>audioData = None, inputTranscription = None, outputTranscription = None,
                     turnComplete = True\<rparr>
                   \<lparr>currentTime = 0, dateNowUser = 1700000000000, dateNowModel = 1700000000001\<rparr>
          \<noteq> Connect c)
   \<and> (\<forall>c. Connect c \<notin> set
         [OnMessage \<lparr>audioData = None, inputTranscription = Some (js ''Hello''),
                     outputTranscription = None, turnComplete = False\<rparr>
                   \<lparr>currentTime = 0, dateNowUser = 1700000000000, dateNowModel = 1700000000001\<rparr>,
          OnMessage \<lparr>audioData = None, inputTranscription = None, outputTranscription = None,
                     turnComplete = True\<rparr>
                   \<lparr>currentTime = 0, dateNowUser = 1700000000000, dateNowModel = 1700000000001\<rparr>])
   \<and> prefix (messages (initial_state\<lparr>messages := [model_message 1699999999999 (js ''Hi, I am Koli.'')]\<rparr>))
        (messages (snd (run (\<lambda>d. None)
         [OnMessage \<lparr>audioData = None, inputTranscription = Some (js ''Hello''),
                     outputTranscription = None, turnComplete = False\<rparr>
                   \<lparr>currentTime = 0, dateNowUser = 1700000000000, dateNowModel = 1700000000001\<rparr>,
          OnMessage \<lparr>audioData = None, inputTranscription = None, outputTranscription = None,
                     turnComplete = True\<rparr>
                   \<lparr>currentTime = 0, dateNowUser = 1700000000000, dateNowModel = 1700000000001\<rparr>]
         (initial_state\<lparr>messages := [model_message 1699999999999 (js ''Hi, I am Koli.'')]\<rparr>))))
   \<and> map role (messages (snd (run (\<lambda>d. None)
         [OnMessage \<lparr>audioData = None, inputTranscription = Some (js ''Hello''),
                     outputTranscription = None, turnComplete = False\<rparr>
                   \<lparr>currentTime = 0, dateNowUser = 1700000000000, dateNowModel = 1700000000001\<rparr>,
          OnMessage \<lparr>audioData = None, inputTranscription = None, outputTranscription = None,
                     turnComplete = True\<rparr>
                   \<lparr>currentTime = 0, dateNowUser = 1700000000000, dateNowModel = 1700000000001\<rparr>]
         (initial_state\<lparr>messages := [model_message 1699999999999 (js ''Hi, I am Koli.'')]\<rparr>))))
       = [Model, User]"
proof -
  let ?env = "\<lparr>currentTime = 0, dateNowUser = 1700000000000, dateNowModel = 1700000000001\<rparr>"
  let ?m1 = "\<lparr>audioData = None, inputTranscription = Some (js ''Hello''),
              outputTranscription = None, turnComplete = False\<rparr>"
  let ?m2 = "\<lparr>audioData = None, inputTranscription = None, outputTranscription = None,
              turnComplete = True\<rparr>"
  let ?s = "initial_state\<lparr>messages := [model_message 1699999999999 (js ''Hi, I am Koli.'')]\<rparr>"
  have nc: "\<forall>c. Connect c \<notin> set [OnMessage ?m1 ?env, OnMessage ?m2 ?env]"
    by simp
  have v: "messages (snd (run (\<lambda>d. None) [OnMessage ?m1 ?env, OnMessage ?m2 ?env] ?s))
      = [model_message 1699999999999 (js ''Hi, I am Koli.''), user_message 1700000000000 (js ''Hello'')]"
    unfolding snd_run_Cons
    by (simp add: onmessage_messages onmessage_accumulators finalized_def fragment_def
        has_text_examples initial_state_def)
  have rl: "map role (messages (snd (run (\<lambda>d. None) [OnMessage ?m1 ?env, OnMessage ?m2 ?env] ?s)))
      = [Model, User]"
    unfolding v by (simp add: model_message_def user_message_def)
  show ?thesis
    using nc v rl
      messages_append_only [of _ ?s "\<lambda>d. None" _ "OnMessage ?m2 ?env"
        "[OnMessage ?m1 ?env, OnMessage ?m2 ?env]"]
    by simp
qed

theorem turn_complete_finalizes_witness:
  "turnComplete \<lparr>audioData = None, inputTranscription = None,
                 outputTranscription = Some (js ''Hello''), turnComplete = True\<rparr>
   \<and> \<not> has_text (currentInputRef initial_state
        @ fragment (inputTranscription \<lparr>audioData = None, inputTranscription = None,
                 outputTranscription = Some (js ''Hello''), turnComplete = True\<rparr>))
   \<and> has_text (currentOutputRef initial_state
        @ fragment (outputTranscription \<lparr>audioData = None, inputTranscription = None,
                 outputTranscription = Some (js ''Hello''), turnComplete = True\<rparr>))
   \<and> map role (messages (snd (onmessage (\<lambda>d. None)
         \<lparr>audioData = None, inputTranscription = None,
          outputTranscription = Some (js ''Hello''), turnComplete = True\<rparr>
         \<lparr>currentTime = 0, dateNowUser = 1700000000000, dateNowModel = 1700000000001\<rparr>
         initial_state))) = [Model]
   \<and> currentOutputRef (snd (onmessage (\<lambda>d. None)
         \<lparr>audioData = None, inputTranscription = None,
          outputTranscription = Some (js ''Hello''), turnComplete = True\<rparr>
         \<lparr>currentTime = 0, dateNowUser = 1700000000000, dateNowModel = 1700000000001\<rparr>
         initial_state)) = []"
proof -
  let ?env = "\<lparr>currentTime = 0, dateNowUser = 1700000000000, dateNowModel = 1700000000001\<rparr>"
  let ?m = "\<lparr>audioData = None, inputTranscription = None,
             outputTranscription = Some (js ''Hello''), turnComplete = True\<rparr>"
  note tcf = turn_complete_finalizes [of ?m "\<lambda>d. None" ?env initial_state]
  have t: "turnComplete ?m"
    by simp
  have i: "currentInputRef initial_state = []" "currentOutputRef initial_state = []"
    "messages initial_state = []"
    by (simp_all add: initial_state_def)
  have h: "has_text (currentOutputRef initial_state @ fragment (outputTranscription ?m))"
    "\<not> has_text (currentInputRef initial_state @ fragment (inputTranscription ?m))"
    by (simp_all add: i fragment_def has_text_examples)
  have f: "finalized_roles ?m initial_state = [Model]"
    using h by (simp add: finalized_roles_def)
  obtain new where a: "messages (snd (onmessage (\<lambda>d. None) ?m ?env initial_state))
      = messages initial_state @ new" and b: "map role new = finalized_roles ?m initial_state"
    using tcf [OF t] by blast
  have r: "map role (messages (snd (onmessage (\<lambda>d. None) ?m ?env initial_state))) = [Model]"
    using a b f i by simp
  have c: "currentOutputRef (snd (onmessage (\<lambda>d. None) ?m ?env initial_state)) =
       (if has_text (currentOutputRef initial_state @ fragment (outputTranscription ?m)) then []
        else currentOutputRef initial_state @ fragment (outputTranscription ?m))"
    using tcf [OF t] by blast
  show ?thesis
    using t h r c by simp
qed

text \<open>
  The claim as stated fails: after a transcription fragment of one space the user
  accumulator is not empty, yet the turn-complete signal appends nothing and does not
  clear it.
\<close>

theorem whitespace_turn_counterexample:
  "currentInputRef (snd (run (\<lambda>d. None)
       [OnMessage \<lparr>audioData = None, inputTranscription = Some (js '' ''),
                   outputTranscription = None, turnComplete = False\<rparr>
                 \<lparr>currentTime = 0, dateNowUser = 1700000000000, dateNowModel = 1700000000001\<rparr>]
       initial_state)) = js '' ''
   \<and> js '' '' \<noteq> []
   \<and> messages (snd (run (\<lambda>d. None)
       [OnMessage \<lparr>audioData = None, inputTranscription = Some (js '' ''),
                   outputTranscription = None, turnComplete = False\<rparr>
                 \<lparr>currentTime = 0, dateNowUser = 1700000000000, dateNowModel = 1700000000001\<rparr>,
        OnMessage \<lparr>audioData = None, inputTranscription = None, outputTranscription = None,
                   turnComplete = True\<rparr>
                 \<lparr>currentTime = 0, dateNowUser = 1700000000000, dateNowModel = 1700000000001\<rparr>]
       initial_state)) = []
   \<and> currentInputRef (snd (run (\<lambda>d. None)
       [OnMessage \<lparr>audioData = None, inputTranscription = Some (js '' ''),
                   outputTranscription = None, turnComplete = False\<rparr>
                 \<lparr>currentTime = 0, dateNowUser = 1700000000000, dateNowModel = 1700000000001\<rparr>,
        OnMessage \<lparr>audioData = None, inputTranscription = None, outputTranscription = None,
                   turnComplete = True\<rparr>
                 \<lparr>currentTime = 0, dateNowUser = 1700000000000, dateNowModel = 1700000000001\<rparr>]
       initial_state)) = js '' ''"
proof -
  have n: "js '' '' \<noteq> []"
    by (simp add: js_def)
  have i: "currentInputRef initial_state = []" "currentOutputRef initial_state = []"
    "messages initial_state = []"
    by (simp_all add: initial_state_def)
  show ?thesis
    unfolding snd_run_Cons
    using n
    by (simp add: onmessage_messages onmessage_accumulators finalized_def fragment_def
        has_text_examples i)
qed

subsection \<open>The playback schedule\<close>

text \<open>
  The two halves run back to back are the handler with a decode that settles at once; a
  message that is not played is handled in full on arrival.
\<close>

lemma settle_after_arrive:
  "plays m s \<Longrightarrow> onmessage_settle dec m env (onmessage_arrive m env s) = onmessage dec m env s"
  by (simp add: onmessage_settle_def onmessage_arrive_def onmessage_def play_audio_def plays_def)

lemma arrive_without_audio:
  "\<not> plays m s \<Longrightarrow> ([], onmessage_arrive m env s) = onmessage dec m env s"
  by (auto simp: onmessage_arrive_def onmessage_def play_audio_def plays_def)






















subsection \<open>The speaking flag\<close>

lemma setup_step_speaking:
  "isModelSpeaking (setup_step env st s) = isModelSpeaking s"
  "activeSourcesRef (setup_step env st s) = activeSourcesRef s"
  by (cases st; simp)+

lemma try_block_speaking:
  "isModelSpeaking (snd (try_block env sts s)) = isModelSpeaking s
   \<and> activeSourcesRef (snd (try_block env sts s)) = activeSourcesRef s"
  by (induction sts arbitrary: s) (auto simp: setup_step_speaking split: option.splits)

lemma connect_speaking: "speaking_matches s \<Longrightarrow> speaking_matches (snd (connect env s))"
proof -
  assume inv: "speaking_matches s"
  have b: "isModelSpeaking (connect_begin s) = isModelSpeaking s"
    "activeSourcesRef (connect_begin s) = activeSourcesRef s"
    by (simp_all add: connect_begin_def setMessages_reset_def)
  show ?thesis
  proof (cases "try_block env connect_steps (connect_begin s)")
    case (Pair r s1)
    then have s1: "s1 = snd (try_block env connect_steps (connect_begin s))" by simp
    have k: "isModelSpeaking s1 = isModelSpeaking s" "activeSourcesRef s1 = activeSourcesRef s"
      unfolding s1 using try_block_speaking [of env connect_steps "connect_begin s"] b by simp_all
    show ?thesis
    proof (cases r)
      case None
      with Pair k inv show ?thesis by (simp add: connect_def speaking_matches_def)
    next
      case (Some err)
      with Pair show ?thesis
        by (simp add: connect_def connect_catch_def stopAudioProcessing_state speaking_matches_def)
    qed
  qed
qed

lemma play_audio_speaking:
  "isModelSpeaking (snd (play_audio dec m now s)) = (plays m s \<or> isModelSpeaking s)"
  "activeSourcesRef (snd (play_audio dec m now s)) =
     (if plays m s then
        (case dec (payload m) of
           None \<Rightarrow> activeSourcesRef s
         | Some b \<Rightarrow> set_add (sourcesCreated s) (activeSourcesRef s))
      else activeSourcesRef s)"
  by (auto simp: play_audio_def audio_begin_def audio_resume_def plays_def payload_def Let_def split: option.splits)

lemma onmessage_speaking:
  "isModelSpeaking (snd (onmessage dec m env s)) =
     isModelSpeaking (snd (play_audio dec m (currentTime env) s))"
  "activeSourcesRef (snd (onmessage dec m env s)) =
     activeSourcesRef (snd (play_audio dec m (currentTime env) s))"
  by (simp_all add: onmessage_snd turn_complete_def finalize_user_def finalize_model_def
      setMessages_append_def output_fragment_def input_fragment_def split: option.splits)

lemma set_add_nonempty: "set_add x xs \<noteq> []"
  by (auto simp: set_add_def)

lemma onmessage_keeps_speaking_matches:
  assumes "speaking_matches s" and "\<not> (plays m s \<and> dec (payload m) = None)"
  shows "speaking_matches (snd (onmessage dec m env s))"
proof (cases "plays m s")
  case False
  with assms(1) show ?thesis
    by (simp add: speaking_matches_def onmessage_speaking play_audio_speaking)
next
  case True
  with assms(2) obtain b where "dec (payload m) = Some b" by (cases "dec (payload m)") auto
  with True show ?thesis
    by (simp add: speaking_matches_def onmessage_speaking play_audio_speaking set_add_nonempty)
qed

lemma source_ended_speaking: "speaking_matches s \<Longrightarrow> speaking_matches (source_ended src s)"
  by (auto simp: speaking_matches_def source_ended_def set_delete_def Let_def)

text \<open>
  Every callback keeps the flag in agreement with the active set, completions in any
  order included, except an inbound message whose audio payload is played and fails to
  decode.
\<close>

lemma speaking_matches_step:
  assumes "speaking_matches s"
    and "\<forall>m env. e = OnMessage m env \<longrightarrow> \<not> (plays m s \<and> dec (payload m) = None)"
  shows "speaking_matches (snd (step dec e s))"
proof (cases e)
  case (Connect env)
  with assms(1) show ?thesis by (simp add: connect_speaking)
next
  case OnOpen
  with assms(1) show ?thesis by (simp add: onopen_def speaking_matches_def)
next
  case (OnMessage m env)
  with assms show ?thesis by (simp add: onmessage_keeps_speaking_matches)
next
  case OnClose
  then show ?thesis by (simp add: onclose_def stopAudioProcessing_state speaking_matches_def)
next
  case (OnError err)
  then show ?thesis by (simp add: onerror_snd stopAudioProcessing_state speaking_matches_def)
next
  case (Disconnect ct)
  then show ?thesis
    by (simp add: split_beta disconnect_eq stopAudioProcessing_state speaking_matches_def)
next
  case (SourceEnded src)
  with assms(1) show ?thesis by (simp add: source_ended_speaking)
next
  case (DataAvailable d)
  with assms(1) show ?thesis by (simp add: ondataavailable_def speaking_matches_def)
next
  case (AudioProcess f)
  with assms(1) show ?thesis
    by (simp add: onaudioprocess_def speaking_matches_def split: option.splits)
next
  case (SetIsMuted b)
  with assms(1) show ?thesis by (simp add: speaking_matches_def)
qed

lemma connect_ok_output_context:
  "failure env = None \<Longrightarrow> outputAudioContextRef (snd (connect env s)) = Some AudioContext"
  by (simp add: connect_def connect_steps_def connect_begin_def setMessages_reset_def)

lemma connect_ok_active:
  "failure env = None \<Longrightarrow> activeSourcesRef (snd (connect env s)) = activeSourcesRef s"
  by (simp add: connect_def connect_steps_def connect_begin_def setMessages_reset_def)

text \<open>
  C2. The handler sets the flag before the \<open>try\<close> and adds the source inside it: a
  session is opened, and the first audio payload fails to decode. The message has then
  been handled in full, the flag is true and the active set is empty; no completion
  event is pending that would clear the flag.
\<close>

theorem speaking_flag_after_failed_decode:
  "isModelSpeaking (snd (run decoder_by_length
      [Connect \<lparr>failure = None, stream = [0], session = Fulfilled\<rparr>, OnOpen,
       OnMessage \<lparr>audioData = Some (js ''A''), inputTranscription = None,
                  outputTranscription = None, turnComplete = False\<rparr>
                 \<lparr>currentTime = 1, dateNowUser = 1700000000000, dateNowModel = 1700000000001\<rparr>]
      initial_state))
   \<and> activeSourcesRef (snd (run decoder_by_length
      [Connect \<lparr>failure = None, stream = [0], session = Fulfilled\<rparr>, OnOpen,
       OnMessage \<lparr>audioData = Some (js ''A''), inputTranscription = None,
                  outputTranscription = None, turnComplete = False\<rparr>
                 \<lparr>currentTime = 1, dateNowUser = 1700000000000, dateNowModel = 1700000000001\<rparr>]
      initial_state)) = []"
proof -
  let ?env = "\<lparr>failure = None, stream = [0], session = Fulfilled\<rparr>"
  let ?m = "\<lparr>audioData = Some (js ''A''), inputTranscription = None,
             outputTranscription = None, turnComplete = False\<rparr>"
  let ?s2 = "snd (onopen (snd (connect ?env initial_state)))"
  have i: "speaking_matches initial_state" "activeSourcesRef initial_state = []"
    by (simp_all add: speaking_matches_def initial_state_def)
  have a1: "activeSourcesRef (snd (connect ?env initial_state)) = []"
    using i(2) by (simp add: connect_ok_active)
  have a2: "activeSourcesRef ?s2 = []"
    using a1 by (simp add: onopen_def)
  have c2: "outputAudioContextRef ?s2 = Some AudioContext"
    by (simp add: onopen_def connect_ok_output_context)
  have p: "plays ?m ?s2"
    using c2 by (simp add: plays_def js_def)
  have d: "decoder_by_length (payload ?m) = None"
    by (simp add: decoder_by_length_def payload_def js_def)
  show ?thesis
    unfolding snd_run_Cons run.simps(1) snd_conv step.simps
    using p d a2 by (simp add: onmessage_speaking play_audio_speaking)
qed

subsection \<open>The audio codec\<close>

lemma le_bytes_inverse:
  "or (ucast (ucast w :: 8 word)) (push_bit 8 (ucast (ucast (drop_bit 8 w) :: 8 word)))
     = (w :: 16 word)"
  by (rule bit_word_eqI) (auto simp: bit_simps)

lemma of_le_bytes_encode:
  "of_le_bytes (concat (map (\<lambda>x. le_bytes (f x)) xs)) = map f xs"
  by (induction xs) (simp_all add: le_bytes_def le_bytes_inverse)

lemma saturate16_range: "- 32768 \<le> saturate16 n \<and> saturate16 n \<le> 32767"
  by (simp add: saturate16_def)

lemma sint_saturate16: "sint (word_of_int (saturate16 n) :: 16 word) = saturate16 n"
  using saturate16_range [of n] by (simp add: sint_sbintrunc' signed_take_bit_int_eq_self)

lemma clamp_sample_range: "- 1 \<le> clamp_sample x \<and> clamp_sample x \<le> 1"
  by (simp add: clamp_sample_def)

lemma saturate16_close:
  assumes "\<bar>real_of_int n - y\<bar> < 1" and "- 32768 \<le> y" and "y \<le> 32768"
  shows "\<bar>real_of_int (saturate16 n) - y\<bar> \<le> 1"
proof -
  consider "n < - 32768" | "- 32768 \<le> n \<and> n \<le> 32767" | "32767 < n" by linarith
  then show ?thesis
  proof cases
    case 1
    then have "real_of_int n \<le> - 32769" by linarith
    with assms show ?thesis by linarith
  next
    case 2
    then have "saturate16 n = n" by (simp add: saturate16_def)
    with assms show ?thesis by simp
  next
    case 3
    then have s: "saturate16 n = 32767" by (simp add: saturate16_def)
    from 3 have "32768 \<le> real_of_int n" by linarith
    with assms show ?thesis unfolding s by simp
  qed
qed

lemma roundtrip_sample:
  assumes "\<forall>y. \<bar>real_of_int (rnd y) - y\<bar> < 1"
  shows "\<bar>pcm_decode_sample (pcm_encode_sample rnd x) - clamp_sample x\<bar> \<le> 1 / 32768"
proof -
  let ?y = "clamp_sample x * 32768"
  have r: "- 32768 \<le> ?y" "?y \<le> 32768"
    using clamp_sample_range [of x] by simp_all
  have c: "\<bar>real_of_int (rnd ?y) - ?y\<bar> < 1"
    using assms by blast
  have "\<bar>real_of_int (saturate16 (rnd ?y)) - ?y\<bar> \<le> 1"
    using c r by (rule saturate16_close)
  then have "\<bar>real_of_int (saturate16 (rnd ?y)) / 32768 - clamp_sample x\<bar> \<le> 1 / 32768"
    by (simp add: field_simps abs_le_iff)
  then show ?thesis
    by (simp add: pcm_decode_sample_def pcm_encode_sample_def sint_saturate16)
qed

lemma decode_encode:
  "pcm_decode (pcm_encode rnd xs) = map (\<lambda>x. pcm_decode_sample (pcm_encode_sample rnd x)) xs"
  by (simp add: pcm_decode_def pcm_encode_def of_le_bytes_encode)

text \<open>
  C9. Whatever rounding the encoder uses, as long as it moves a value by less than one:
  decoding the encoding of a finite sequence of samples gives as many samples, each
  within one quantization step \<open>1/32768\<close> of the clamped original. The clamped original
  of a sample in \<open>[-1, 1]\<close> is the sample itself, that of a sample above \<open>1\<close> is \<open>1\<close>
  and that of a sample below \<open>-1\<close> is \<open>-1\<close>: out-of-range samples saturate, they do
  not wrap.
\<close>

theorem pcm_roundtrip:
  assumes "\<forall>y. \<bar>real_of_int (rnd y) - y\<bar> < 1"
  shows "length (pcm_decode (pcm_encode rnd xs)) = length xs
   \<and> (\<forall>i<length xs. \<bar>pcm_decode (pcm_encode rnd xs) ! i - clamp_sample (xs ! i)\<bar> \<le> 1 / 32768)
   \<and> (\<forall>x. - 1 \<le> x \<and> x \<le> 1 \<longrightarrow> clamp_sample x = x)
   \<and> (\<forall>x. 1 < x \<longrightarrow> clamp_sample x = 1)
   \<and> (\<forall>x. x < - 1 \<longrightarrow> clamp_sample x = - 1)"
  using roundtrip_sample [OF assms]
  by (simp add: decode_encode clamp_sample_def)

lemma truncating_close: "\<forall>y. \<bar>real_of_int (to_int_truncating y) - y\<bar> < 1"
  by (auto simp: to_int_truncating_def) linarith+

lemma encode_example: "pcm_encode to_int_truncating [3 / 2, - 2, 1 / 3] = [255, 127, 0, 128, 170, 42]"
  by (simp add: pcm_encode_def pcm_encode_sample_def le_bytes_def clamp_sample_def
      saturate16_def to_int_truncating_def)

lemma decode_example: "pcm_decode [255, 127, 0, 128, 170, 42] = [32767 / 32768, - 1, 10922 / 32768]"
  by (simp add: pcm_decode_def pcm_decode_sample_def)

text \<open>
  With truncation: \<open>3/2\<close> saturates to \<open>32767\<close>, \<open>-2\<close> to \<open>-32768\<close>, and \<open>1/3\<close>
  becomes \<open>10922\<close>.
\<close>

theorem pcm_roundtrip_witness:
  "pcm_decode (pcm_encode to_int_truncating [3 / 2, - 2, 1 / 3])
     = [32767 / 32768, - 1, 10922 / 32768]
   \<and> length (pcm_decode (pcm_encode to_int_truncating [3 / 2, - 2, 1 / 3])) = 3
   \<and> \<bar>pcm_decode (pcm_encode to_int_truncating [3 / 2, - 2, 1 / 3]) ! 0 - 1\<bar> \<le> 1 / 32768
   \<and> \<bar>pcm_decode (pcm_encode to_int_truncating [3 / 2, - 2, 1 / 3]) ! 1 - (- 1)\<bar> \<le> 1 / 32768
   \<and> \<bar>pcm_decode (pcm_encode to_int_truncating [3 / 2, - 2, 1 / 3]) ! 2 - 1 / 3\<bar> \<le> 1 / 32768
   \<and> clamp_sample (3 / 2) = 1 \<and> clamp_sample (- 2) = - 1 \<and> clamp_sample (1 / 3) = 1 / 3"
proof -
  let ?xs = "[3 / 2, - 2, 1 / 3] :: real list"
  note r = pcm_roundtrip [OF truncating_close, of ?xs]
  have v: "pcm_decode (pcm_encode to_int_truncating ?xs) = [32767 / 32768, - 1, 10922 / 32768]"
    by (simp only: encode_example decode_example)
  have l: "length (pcm_decode (pcm_encode to_int_truncating ?xs)) = 3"
    using r by simp
  have b: "\<forall>i<length ?xs. \<bar>pcm_decode (pcm_encode to_int_truncating ?xs) ! i
      - clamp_sample (?xs ! i)\<bar> \<le> 1 / 32768"
    using r by blast
  have c: "clamp_sample (3 / 2) = 1" "clamp_sample (- 2) = - 1" "clamp_sample (1 / 3) = 1 / 3"
    using r by simp_all
  have b0: "\<bar>pcm_decode (pcm_encode to_int_truncating ?xs) ! 0 - 1\<bar> \<le> 1 / 32768"
    using b [rule_format, of 0] c by simp
  have b1: "\<bar>pcm_decode (pcm_encode to_int_truncating ?xs) ! 1 - (- 1)\<bar> \<le> 1 / 32768"
    using b [rule_format, of 1] c by simp
  have b2: "\<bar>pcm_decode (pcm_encode to_int_truncating ?xs) ! 2 - 1 / 3\<bar> \<le> 1 / 32768"
    using b [rule_format, of 2] c by simp
  show ?thesis
    using v l b0 b1 b2 c by blast
qed

end
